theory Spec2Isabelle
  imports Complex_Main "HOL-Library.Log_Nat"
begin

section \<open>Python values\<close>

text \<open>
  The analysis result is whatever \<^verbatim>\<open>json.loads\<close> returns: \<^verbatim>\<open>None\<close>, booleans, integers
  (unbounded), floats, strings, lists and dicts. A dict is an association list in insertion
  order; a Python dict has no duplicate keys, which theorems that depend on it state as
  \<open>distinct (map fst d)\<close>. A float is carried by the exact rational value of the finite
  double; \<^verbatim>\<open>NaN\<close> and the infinities are outside the model. Strings are ASCII texts.
\<close>

datatype json =
    JNull
  | JBool bool
  | JInt int
  | JFloat rat
  | JStr string
  | JList "json list"
  | JDict "(string \<times> json) list"

text \<open>
  Every exception the modelled code can raise is a value. \<open>Unmodelled\<close> marks what the
  model does not compute: \<^verbatim>\<open>sum\<close> over floats (its result depends on the interpreter
  version), \<^verbatim>\<open>str\<close> of floats, lists and dicts, and a float operation whose result would
  leave the finite doubles. No theorem below holds of an input by way of this value.
\<close>

datatype py_error = TypeError | AttributeError | KeyError | ZeroDivisionError | OverflowError | Unmodelled

definition bind_r :: "py_error + 'a \<Rightarrow> ('a \<Rightarrow> py_error + 'b) \<Rightarrow> py_error + 'b" where
  "bind_r m f = (case m of Inl e \<Rightarrow> Inl e | Inr x \<Rightarrow> f x)"

text \<open>\<^verbatim>\<open>d.get(k, default)\<close> and \<^verbatim>\<open>d[k] = v\<close> on a dict.\<close>

definition get_or :: "(string \<times> json) list \<Rightarrow> string \<Rightarrow> json \<Rightarrow> json" where
  "get_or d k dflt = (case map_of d k of None \<Rightarrow> dflt | Some v \<Rightarrow> v)"

fun dict_set :: "(string \<times> json) list \<Rightarrow> string \<Rightarrow> json \<Rightarrow> (string \<times> json) list" where
  "dict_set [] k v = [(k, v)]"
| "dict_set ((k', v') # d) k v = (if k' = k then (k, v) # d else (k', v') # dict_set d k v)"

text \<open>\<^verbatim>\<open>x.get(k, default)\<close> and \<^verbatim>\<open>x.items()\<close> on any value: only a dict has them.\<close>

definition py_get :: "json \<Rightarrow> string \<Rightarrow> json \<Rightarrow> py_error + json" where
  "py_get x k dflt = (case x of JDict d \<Rightarrow> Inr (get_or d k dflt) | _ \<Rightarrow> Inl AttributeError)"

definition py_items :: "json \<Rightarrow> py_error + (string \<times> json) list" where
  "py_items x = (case x of JDict d \<Rightarrow> Inr d | _ \<Rightarrow> Inl AttributeError)"

text \<open>Truth value of an object, as \<^verbatim>\<open>if x\<close> tests it.\<close>

fun truthy :: "json \<Rightarrow> bool" where
  "truthy JNull = False"
| "truthy (JBool b) = b"
| "truthy (JInt n) = (n \<noteq> 0)"
| "truthy (JFloat x) = (x \<noteq> 0)"
| "truthy (JStr s) = (s \<noteq> [])"
| "truthy (JList xs) = (xs \<noteq> [])"
| "truthy (JDict d) = (d \<noteq> [])"

text \<open>The numeric value of a number (\<^verbatim>\<open>bool\<close> is a subclass of \<^verbatim>\<open>int\<close>).\<close>

fun num_value :: "json \<Rightarrow> rat option" where
  "num_value (JBool b) = Some (if b then 1 else 0)"
| "num_value (JInt n) = Some (of_int n)"
| "num_value (JFloat x) = Some x"
| "num_value _ = None"

text \<open>\<^verbatim>\<open>str(x)\<close>, as an f-string interpolates it.\<close>

function show_nat :: "nat \<Rightarrow> string" where
  "show_nat n =
     (if n < 10 then [''0123456789'' ! n]
      else show_nat (n div 10) @ [''0123456789'' ! (n mod 10)])"
  by pat_completeness auto
termination
  by (relation "measure id") auto

definition show_int :: "int \<Rightarrow> string" where
  "show_int i = (if i < 0 then ''-'' @ show_nat (nat (- i)) else show_nat (nat i))"

fun py_str :: "json \<Rightarrow> py_error + string" where
  "py_str JNull = Inr ''None''"
| "py_str (JBool b) = Inr (if b then ''True'' else ''False'')"
| "py_str (JInt n) = Inr (show_int n)"
| "py_str (JStr s) = Inr s"
| "py_str _ = Inl Unmodelled"

section \<open>Floating point\<close>

text \<open>
  Python floats are IEEE 754 doubles with round-to-nearest, ties-to-even. \<open>fl q\<close> is the
  double nearest to the rational \<open>q\<close>, with the gradual underflow of the subnormal range
  and without an upper limit: the operations below check the limit \<open>2 ^ 1024\<close>. Integer
  true division and the conversion of a decimal literal are correctly rounded, so they are
  \<open>fl\<close> of the exact value; so are the product and the sum of two doubles.
  \<^verbatim>\<open>round(x, 2)\<close> rounds the exact value of \<open>x\<close> half-even to two decimals and converts
  the decimal result back to a double.
\<close>

definition round_half_even :: "rat \<Rightarrow> int" where
  "round_half_even x =
     (let n = \<lfloor>x\<rfloor>; f = x - of_int n
      in if f < 1 / 2 then n else if 1 / 2 < f then n + 1 else if even n then n else n + 1)"

definition ilog2 :: "rat \<Rightarrow> int" where
  "ilog2 q =
     (let (a, b) = quotient_of q; d = bitlen a - bitlen b
      in if 2 powi d \<le> q then d else d - 1)"

definition ulp :: "rat \<Rightarrow> rat" where
  "ulp q = 2 powi (max (ilog2 \<bar>q\<bar>) (- 1022) - 52)"

definition fl :: "rat \<Rightarrow> rat" where
  "fl q = (if q = 0 then 0 else sgn q * of_int (round_half_even (\<bar>q\<bar> / ulp q)) * ulp q)"

definition py_round2 :: "rat \<Rightarrow> rat" where
  "py_round2 x = fl (of_int (round_half_even (x * 100)) / 100)"

text \<open>A float result: the double nearest to the exact value, if it is finite.\<close>

definition float_result :: "py_error \<Rightarrow> rat \<Rightarrow> py_error + json" where
  "float_result e q = (let r = fl q in if \<bar>r\<bar> < 2 ^ 1024 then Inr (JFloat r) else Inl e)"

text \<open>\<^verbatim>\<open>a / b\<close> on integers.\<close>

definition py_truediv :: "int \<Rightarrow> int \<Rightarrow> py_error + json" where
  "py_truediv a b =
     (if b = 0 then Inl ZeroDivisionError else float_result OverflowError (of_int a / of_int b))"

text \<open>
  \<^verbatim>\<open>x * c\<close> for a float literal \<open>c\<close>: an integer operand is converted to a float first
  (\<^verbatim>\<open>OverflowError\<close> when it is too large). \<^verbatim>\<open>x + y\<close> is modelled for two floats, the only
  operands the calculator adds. A result beyond the finite doubles would be infinite.
\<close>

definition to_float :: "json \<Rightarrow> py_error + rat" where
  "to_float x =
     (case x of
        JFloat r \<Rightarrow> Inr r
      | JInt n \<Rightarrow> (case float_result OverflowError (of_int n) of Inl e \<Rightarrow> Inl e | Inr _ \<Rightarrow> Inr (fl (of_int n)))
      | JBool b \<Rightarrow> Inr (if b then 1 else 0)
      | _ \<Rightarrow> Inl TypeError)"

definition py_mul :: "json \<Rightarrow> rat \<Rightarrow> py_error + json" where
  "py_mul x c = bind_r (to_float x) (\<lambda>r. float_result Unmodelled (r * c))"

definition py_add :: "json \<Rightarrow> json \<Rightarrow> py_error + json" where
  "py_add x y =
     (case (x, y) of
        (JFloat r, JFloat s) \<Rightarrow> float_result Unmodelled (r + s)
      | _ \<Rightarrow> Inl Unmodelled)"

text \<open>\<^verbatim>\<open>round(x, 2)\<close>: an integer is returned as it is.\<close>

definition py_round :: "json \<Rightarrow> py_error + json" where
  "py_round x =
     (case x of
        JFloat r \<Rightarrow> Inr (JFloat (py_round2 r))
      | JInt n \<Rightarrow> Inr (JInt n)
      | JBool b \<Rightarrow> Inr (JInt (if b then 1 else 0))
      | _ \<Rightarrow> Inl TypeError)"

text \<open>\<^verbatim>\<open>sum(xs)\<close>, from the integer 0, left to right.\<close>

fun sum_from :: "int \<Rightarrow> json list \<Rightarrow> py_error + int" where
  "sum_from acc [] = Inr acc"
| "sum_from acc (x # xs) =
     (case x of
        JInt n \<Rightarrow> sum_from (acc + n) xs
      | JBool b \<Rightarrow> sum_from (acc + (if b then 1 else 0)) xs
      | JFloat r \<Rightarrow> Inl Unmodelled
      | _ \<Rightarrow> Inl TypeError)"

definition py_sum :: "json list \<Rightarrow> py_error + int" where
  "py_sum xs = sum_from 0 xs"

section \<open>The composite calculator (gemini_analyzer.py)\<close>

text \<open>
  The loop of \<^verbatim>\<open>_calculate_composite_scores\<close> over one category: the score of every entry
  that is a dict and whose \<^verbatim>\<open>"score"\<close> is not \<^verbatim>\<open>None\<close>.
\<close>

fun collect_scores :: "(string \<times> json) list \<Rightarrow> json list" where
  "collect_scores [] = []"
| "collect_scores ((trait, data) # rest) =
     (case data of
        JDict d \<Rightarrow>
          (if get_or d ''score'' JNull \<noteq> JNull
           then get_or d ''score'' JNull # collect_scores rest
           else collect_scores rest)
      | _ \<Rightarrow> collect_scores rest)"

text \<open>\<^verbatim>\<open>sum(scores) / len(scores)\<close>.\<close>

definition average :: "json list \<Rightarrow> py_error + json" where
  "average scores = bind_r (py_sum scores) (\<lambda>s. py_truediv s (int (length scores)))"

text \<open>The float literals \<^verbatim>\<open>0.6\<close> and \<^verbatim>\<open>0.4\<close>.\<close>

definition c06 :: rat where "c06 = fl (6 / 10)"
definition c04 :: rat where "c04 = fl (4 / 10)"

definition calculate_composite_scores :: "(string \<times> json) list \<Rightarrow> py_error + json" where
  "calculate_composite_scores result =
     bind_r (py_items (get_or result ''structural_scores'' (JDict []))) (\<lambda>structural.
     let structural_scores = collect_scores structural in
     bind_r (if structural_scores \<noteq> [] then average structural_scores else Inr (JInt 5))
       (\<lambda>structural_avg.
     bind_r (py_items (get_or result ''udder_scores'' (JDict []))) (\<lambda>udder.
     let udder_scores = collect_scores udder in
     bind_r (if udder_scores \<noteq> [] then average udder_scores else Inr JNull) (\<lambda>udder_avg.
     bind_r (if udder_avg \<noteq> JNull
             then bind_r (py_mul structural_avg c06) (\<lambda>a.
                  bind_r (py_mul udder_avg c04) (\<lambda>b. py_add a b))
             else Inr structural_avg) (\<lambda>final.
     bind_r (py_round structural_avg) (\<lambda>sc.
     bind_r (if truthy udder_avg then py_round udder_avg else Inr JNull) (\<lambda>uc.
     bind_r (py_round final) (\<lambda>fc.
     Inr (JDict [(''structural_composite'', sc),
                 (''udder_composite'', uc),
                 (''final_composite'', fc)])))))))))"

text \<open>\<^verbatim>\<open>_validate_result\<close>: fill in the missing fields, then attach the composites.\<close>

definition defaults :: "(string \<times> json) list" where
  "defaults =
     [(''animal_detected'', JBool False),
      (''animal_type'', JStr ''unknown''),
      (''breed_guess'', JStr ''unknown''),
      (''sex'', JStr ''unknown''),
      (''image_quality'', JStr ''fair''),
      (''image_angle'', JStr ''unknown''),
      (''body_parts_visible'', JDict []),
      (''structural_scores'', JDict []),
      (''udder_scores'', JDict []),
      (''overall_score'', JInt 5),
      (''overall_assessment'', JStr ''''),
      (''recommendations'', JList [])]"

fun fill_defaults :: "(string \<times> json) list \<Rightarrow> (string \<times> json) list \<Rightarrow> (string \<times> json) list" where
  "fill_defaults result [] = result"
| "fill_defaults result ((key, dflt) # rest) =
     fill_defaults (if map_of result key = None then dict_set result key dflt else result) rest"

text \<open>\<^verbatim>\<open>key in s\<close> on a string: \<open>key\<close> occurs in \<open>s\<close>.\<close>

definition is_substring :: "string \<Rightarrow> string \<Rightarrow> bool" where
  "is_substring key s = list_ex (\<lambda>i. take (length key) (drop i s) = key) [0..<Suc (length s)]"

text \<open>
  The result of \<^verbatim>\<open>json.loads\<close> need not be a dict. On a number, a boolean or \<^verbatim>\<open>None\<close> the
  test \<^verbatim>\<open>key not in result\<close> raises \<^verbatim>\<open>TypeError\<close>; on a string or a list the test is
  evaluated and the assignment \<^verbatim>\<open>result[key] = default\<close> raises \<^verbatim>\<open>TypeError\<close>, unless every
  key is found, and then \<^verbatim>\<open>result.get\<close> raises \<^verbatim>\<open>AttributeError\<close>.
\<close>

definition validate_result :: "json \<Rightarrow> py_error + (string \<times> json) list" where
  "validate_result result =
     (case result of
        JDict d \<Rightarrow>
          (let r = fill_defaults d defaults
           in bind_r (calculate_composite_scores r) (\<lambda>c. Inr (dict_set r ''composite_scores'' c)))
      | JStr s \<Rightarrow>
          (if list_all (\<lambda>(key, dflt). is_substring key s) defaults
           then Inl AttributeError else Inl TypeError)
      | JList xs \<Rightarrow>
          (if list_all (\<lambda>(key, dflt). JStr key \<in> set xs) defaults
           then Inl AttributeError else Inl TypeError)
      | _ \<Rightarrow> Inl TypeError)"

text \<open>
  \<^verbatim>\<open>_parse_response\<close>. The decoder \<^verbatim>\<open>json.loads\<close> is a parameter: \<open>Inl msg\<close> is a
  \<^verbatim>\<open>JSONDecodeError\<close> whose text is \<open>msg\<close>, the only exception the function catches.
\<close>

definition is_space :: "char \<Rightarrow> bool" where
  "is_space c = (c \<in> set [CHR 0x09, CHR 0x0A, CHR 0x0B, CHR 0x0C, CHR 0x0D,
                          CHR 0x1C, CHR 0x1D, CHR 0x1E, CHR 0x1F, CHR '' ''])"

definition py_strip :: "string \<Rightarrow> string" where
  "py_strip s = rev (dropWhile is_space (rev (dropWhile is_space s)))"

definition startswith :: "string \<Rightarrow> string \<Rightarrow> bool" where
  "startswith s p = (take (length p) s = p)"

definition endswith :: "string \<Rightarrow> string \<Rightarrow> bool" where
  "endswith s p = (length p \<le> length s \<and> drop (length s - length p) s = p)"

definition parse_response ::
  "(string \<Rightarrow> string + json) \<Rightarrow> string \<Rightarrow> py_error + (string \<times> json) list" where
  "parse_response loads response_text =
     (let text = py_strip response_text;
          text = (if startswith text ''```json'' then drop 7 text else text);
          text = (if startswith text ''```'' then drop 3 text else text);
          text = (if endswith text ''```'' then take (length text - 3) text else text);
          text = py_strip text
      in case loads text of
           Inr result \<Rightarrow> validate_result result
         | Inl msg \<Rightarrow>
             Inr [(''error'', JBool True),
                  (''message'', JStr (''Failed to parse AI response: '' @ msg)),
                  (''raw_response'', JStr response_text)])"

section \<open>The scorer (atc_scoring.py)\<close>

text \<open>The table inside \<^verbatim>\<open>get_score_description\<close>: the anchor texts at 1, 5 and 9.\<close>

definition descriptions :: "(string \<times> (int \<times> string) list) list" where
  "descriptions =
     [(''stature'', [(1, ''Very short/small''), (5, ''Average height''), (9, ''Very tall/large'')]),
      (''chest_width'', [(1, ''Very narrow chest''), (5, ''Average chest width''), (9, ''Very wide chest'')]),
      (''body_depth'', [(1, ''Very shallow body''), (5, ''Average body depth''), (9, ''Very deep body'')]),
      (''rump_angle'', [(1, ''Pins very high (level)''), (5, ''Moderate slope''), (9, ''Pins very low (steep)'')]),
      (''rump_width'', [(1, ''Very narrow rump''), (5, ''Average rump width''), (9, ''Very wide rump'')]),
      (''rear_legs'', [(1, ''Very straight (post-legged)''), (5, ''Intermediate set''), (9, ''Very sickled'')]),
      (''foot_angle'', [(1, ''Very low angle (flat)''), (5, ''Intermediate angle''), (9, ''Very steep angle'')]),
      (''body_condition'', [(1, ''Very thin/emaciated''), (5, ''Average condition''), (9, ''Very fat/over-conditioned'')]),
      (''fore_udder'', [(1, ''Weak/loose attachment''), (5, ''Moderate attachment''), (9, ''Very strong attachment'')]),
      (''rear_udder_height'', [(1, ''Very low attachment''), (5, ''Intermediate height''), (9, ''Very high attachment'')]),
      (''udder_depth'', [(1, ''Well below hocks''), (5, ''At hock level''), (9, ''Well above hocks'')]),
      (''teat_placement'', [(1, ''Very wide (outside)''), (5, ''Central placement''), (9, ''Very close (inside)'')]),
      (''teat_length'', [(1, ''Very short teats''), (5, ''Medium length''), (9, ''Very long teats'')])]"

text \<open>
  \<^verbatim>\<open>score in trait_desc\<close> hashes the score: a list or a dict is unhashable
  (\<^verbatim>\<open>TypeError\<close>); a number is found under the integer key it equals; \<^verbatim>\<open>None\<close> and a
  string equal no key.
\<close>

fun dict_key :: "json \<Rightarrow> py_error + int option" where
  "dict_key (JInt n) = Inr (Some n)"
| "dict_key (JBool b) = Inr (Some (if b then 1 else 0))"
| "dict_key (JFloat x) = Inr (if of_int \<lfloor>x\<rfloor> = x then Some \<lfloor>x\<rfloor> else None)"
| "dict_key JNull = Inr None"
| "dict_key (JStr s) = Inr None"
| "dict_key (JList xs) = Inl TypeError"
| "dict_key (JDict d) = Inl TypeError"

text \<open>\<^verbatim>\<open>score < 5\<close>: numbers only.\<close>

definition less_than :: "json \<Rightarrow> rat \<Rightarrow> py_error + bool" where
  "less_than sc n = (case num_value sc of None \<Rightarrow> Inl TypeError | Some x \<Rightarrow> Inr (x < n))"

text \<open>\<^verbatim>\<open>f"{prefix} ({trait_desc[a]} to {trait_desc[b]})"\<close>.\<close>

definition range_text :: "string \<Rightarrow> (int \<times> string) list \<Rightarrow> int \<Rightarrow> int \<Rightarrow> py_error + string" where
  "range_text prefix trait_desc a b =
     (case map_of trait_desc a of
        None \<Rightarrow> Inl KeyError
      | Some x \<Rightarrow>
          (case map_of trait_desc b of
             None \<Rightarrow> Inl KeyError
           | Some y \<Rightarrow> Inr (prefix @ '' ('' @ x @ '' to '' @ y @ '')'')))"

definition get_score_description :: "string \<Rightarrow> json \<Rightarrow> py_error + string" where
  "get_score_description trait_id sc =
     (case map_of descriptions trait_id of
        None \<Rightarrow> bind_r (py_str sc) (\<lambda>s. Inr (''Score: '' @ s))
      | Some trait_desc \<Rightarrow>
          bind_r (dict_key sc) (\<lambda>k.
            case (case k of None \<Rightarrow> None | Some n \<Rightarrow> map_of trait_desc n) of
              Some text \<Rightarrow> Inr text
            | None \<Rightarrow>
                bind_r (less_than sc 5) (\<lambda>below.
                  if below then range_text ''Below average'' trait_desc 1 5
                  else range_text ''Above average'' trait_desc 5 9)))"

text \<open>
  \<^verbatim>\<open>calculate_overall_grade\<close>: the ladder on the value of a number; comparing anything
  but a number with 8 is a \<^verbatim>\<open>TypeError\<close>.
\<close>

definition grade_ladder :: "rat \<Rightarrow> string" where
  "grade_ladder x =
     (if x \<ge> 8 then ''Excellent''
      else if x \<ge> 7 then ''Very Good''
      else if x \<ge> 6 then ''Good Plus''
      else if x \<ge> 5 then ''Good''
      else if x \<ge> 4 then ''Average''
      else if x \<ge> 3 then ''Fair''
      else ''Poor'')"

definition calculate_overall_grade :: "json \<Rightarrow> py_error + string" where
  "calculate_overall_grade composite_score =
     (case num_value composite_score of
        None \<Rightarrow> Inl TypeError
      | Some x \<Rightarrow> Inr (grade_ladder x))"

text \<open>\<^verbatim>\<open>Config.ATC_TRAITS\<close> (config.py): per category, the traits as (id, name, description).\<close>

definition ATC_TRAITS :: "(string \<times> (string \<times> string \<times> string) list) list" where
  "ATC_TRAITS =
     [(''structural'',
        [(''stature'', ''Stature'', ''Height at withers''),
         (''chest_width'', ''Chest Width'', ''Width between front legs''),
         (''body_depth'', ''Body Depth'', ''Depth of barrel/body''),
         (''rump_angle'', ''Rump Angle'', ''Slope from hooks to pins''),
         (''rump_width'', ''Rump Width'', ''Width between pin bones''),
         (''rear_legs'', ''Rear Legs'', ''Angle and set of rear legs''),
         (''foot_angle'', ''Foot Angle'', ''Angle of front feet''),
         (''body_condition'', ''Body Condition'', ''Overall body condition score'')]),
      (''udder'',
        [(''fore_udder'', ''Fore Udder Attachment'', ''Strength of fore attachment''),
         (''rear_udder_height'', ''Rear Udder Height'', ''Height of rear attachment''),
         (''udder_depth'', ''Udder Depth'', ''Udder floor relative to hocks''),
         (''teat_placement'', ''Teat Placement'', ''Position of teats''),
         (''teat_length'', ''Teat Length'', ''Length of teats'')])]"

text \<open>
  \<^verbatim>\<open>trait_defs\<close> of \<^verbatim>\<open>_format_scores\<close>: the traits of the category by id (a later trait
  with the same id would replace an earlier one).
\<close>

definition trait_defs :: "string \<Rightarrow> string \<Rightarrow> (string \<times> string) option" where
  "trait_defs category =
     map_of (rev (case map_of ATC_TRAITS category of None \<Rightarrow> [] | Some ts \<Rightarrow> ts))"

record formatted_score =
  trait_id :: string
  trait_name :: string
  description :: string
  score :: json
  score_description :: string
  trait_notes :: json

text \<open>The score and the notes that \<^verbatim>\<open>_format_scores\<close> reads from one entry.\<close>

definition entry_score :: "json \<Rightarrow> json" where
  "entry_score data = (case data of JDict d \<Rightarrow> get_or d ''score'' JNull | _ \<Rightarrow> data)"

definition entry_notes :: "json \<Rightarrow> json" where
  "entry_notes data = (case data of JDict d \<Rightarrow> get_or d ''notes'' (JStr '''') | _ \<Rightarrow> JStr '''')"

fun format_items :: "(string \<times> json) list \<Rightarrow> string \<Rightarrow> py_error + formatted_score list" where
  "format_items [] category = Inr []"
| "format_items ((tid, data) # rest) category =
     (let sc = entry_score data;
          (nm, ds) = (case trait_defs category tid of None \<Rightarrow> (tid, '''') | Some t \<Rightarrow> t)
      in bind_r (if truthy sc then get_score_description tid sc else Inr ''Not assessed'') (\<lambda>sd.
         bind_r (format_items rest category) (\<lambda>formatted.
         Inr (\<lparr>trait_id = tid, trait_name = nm, description = ds, score = sc,
               score_description = sd, trait_notes = entry_notes data\<rparr> # formatted))))"

definition format_scores :: "json \<Rightarrow> string \<Rightarrow> py_error + formatted_score list" where
  "format_scores scores category = bind_r (py_items scores) (\<lambda>items. format_items items category)"

text \<open>
  The report. The two readings of the clock, formatted by \<^verbatim>\<open>strftime\<close> and
  \<^verbatim>\<open>isoformat\<close>, are parameters of \<open>format_report\<close>.
\<close>

record score_lists =
  structural :: "formatted_score list"
  udder :: "formatted_score list"

record report =
  report_id :: string
  generated_at :: string
  animal_info :: "(string \<times> json) list"
  image_assessment :: "(string \<times> json) list"
  scores :: score_lists
  composites :: json
  overall_grade :: string
  assessment :: json
  recommendations :: json

definition format_report :: "string \<Rightarrow> string \<Rightarrow> (string \<times> json) list \<Rightarrow> py_error + report" where
  "format_report now_id now_iso analysis_result =
     bind_r (format_scores (get_or analysis_result ''structural_scores'' (JDict [])) ''structural'')
       (\<lambda>st.
     bind_r (format_scores (get_or analysis_result ''udder_scores'' (JDict [])) ''udder'') (\<lambda>ud.
     bind_r (py_get (get_or analysis_result ''composite_scores'' (JDict [])) ''final_composite'' (JInt 5))
       (\<lambda>final.
     bind_r (calculate_overall_grade final) (\<lambda>grade.
     Inr \<lparr>report_id = now_id,
          generated_at = now_iso,
          animal_info =
            [(''type'', get_or analysis_result ''animal_type'' (JStr ''unknown'')),
             (''breed'', get_or analysis_result ''breed_guess'' (JStr ''unknown'')),
             (''sex'', get_or analysis_result ''sex'' (JStr ''unknown''))],
          image_assessment =
            [(''quality'', get_or analysis_result ''image_quality'' (JStr ''fair'')),
             (''angle'', get_or analysis_result ''image_angle'' (JStr ''unknown'')),
             (''body_parts_visible'', get_or analysis_result ''body_parts_visible'' (JDict []))],
          scores = \<lparr>structural = st, udder = ud\<rparr>,
          composites = get_or analysis_result ''composite_scores'' (JDict []),
          overall_grade = grade,
          assessment = get_or analysis_result ''overall_assessment'' (JStr ''''),
          recommendations = get_or analysis_result ''recommendations'' (JList [])\<rparr>))))"

text \<open>
  \<^verbatim>\<open>export_for_bpa\<close>. The loop stores each score under its trait id, in the order of the
  formatted list.
\<close>

fun flatten_scores :: "(string \<times> json) list \<Rightarrow> formatted_score list \<Rightarrow> (string \<times> json) list" where
  "flatten_scores acc [] = acc"
| "flatten_scores acc (score_data # rest) =
     flatten_scores (dict_set acc (trait_id score_data) (score score_data)) rest"

definition export_for_bpa :: "report \<Rightarrow> py_error + (string \<times> json) list" where
  "export_for_bpa rep =
     (let structural_scores = flatten_scores [] (structural (scores rep));
          udder_scores = flatten_scores [] (udder (scores rep))
      in bind_r (py_get (composites rep) ''structural_composite'' JNull) (\<lambda>sc.
         bind_r (py_get (composites rep) ''udder_composite'' JNull) (\<lambda>uc.
         bind_r (py_get (composites rep) ''final_composite'' JNull) (\<lambda>fc.
         Inr [(''report_id'', JStr (report_id rep)),
              (''timestamp'', JStr (generated_at rep)),
              (''animal_type'', get_or (animal_info rep) ''type'' JNull),
              (''breed'', get_or (animal_info rep) ''breed'' JNull),
              (''sex'', get_or (animal_info rep) ''sex'' JNull),
              (''structural_scores'', JDict structural_scores),
              (''udder_scores'', JDict udder_scores),
              (''structural_composite'', sc),
              (''udder_composite'', uc),
              (''final_composite'', fc),
              (''overall_grade'', JStr (overall_grade rep)),
              (''assessment'', assessment rep),
              (''recommendations'', recommendations rep)]))))"

section \<open>Notions used to state the properties\<close>

text \<open>The position of a grade on the ladder, lowest first.\<close>

definition grade_rank :: "string \<Rightarrow> nat" where
  "grade_rank g =
     (if g = ''Poor'' then 0 else if g = ''Fair'' then 1 else if g = ''Average'' then 2
      else if g = ''Good'' then 3 else if g = ''Good Plus'' then 4
      else if g = ''Very Good'' then 5 else if g = ''Excellent'' then 6 else 7)"

text \<open>
  The mean of integer scores as the calculator computes it, \<^verbatim>\<open>sum(scores) / len(scores)\<close>,
  and the blend \<^verbatim>\<open>s * 0.6 + u * 0.4\<close> of two floats.
\<close>

definition mean :: "int list \<Rightarrow> rat" where
  "mean ns = fl (of_int (sum_list ns) / of_int (int (length ns)))"

definition blend :: "rat \<Rightarrow> rat \<Rightarrow> rat" where
  "blend s u = fl (fl (s * c06) + fl (u * c04))"

text \<open>
  A typed map of scores: the score of every entry that is a dict is missing, null or an
  integer between \<open>lo\<close> and \<open>hi\<close>; entries that are not dicts are arbitrary. The integer
  scores of a map, in its order. A composite within the range of the scores.
\<close>

definition score_ok :: "int \<Rightarrow> int \<Rightarrow> json \<Rightarrow> bool" where
  "score_ok lo hi data =
     (case data of
        JDict d \<Rightarrow>
          (case map_of d ''score'' of
             None \<Rightarrow> True
           | Some JNull \<Rightarrow> True
           | Some (JInt n) \<Rightarrow> lo \<le> n \<and> n \<le> hi
           | Some _ \<Rightarrow> False)
      | _ \<Rightarrow> True)"

fun typed_scores :: "int \<Rightarrow> int \<Rightarrow> (string \<times> json) list \<Rightarrow> bool" where
  "typed_scores lo hi [] = True"
| "typed_scores lo hi ((trait, data) # rest) = (score_ok lo hi data \<and> typed_scores lo hi rest)"

fun int_scores :: "(string \<times> json) list \<Rightarrow> int list" where
  "int_scores [] = []"
| "int_scores ((trait, data) # rest) =
     (case data of
        JDict d \<Rightarrow> (case map_of d ''score'' of Some (JInt n) \<Rightarrow> n # int_scores rest | _ \<Rightarrow> int_scores rest)
      | _ \<Rightarrow> int_scores rest)"

definition within_1_9 :: "json \<Rightarrow> bool" where
  "within_1_9 x = (case num_value x of None \<Rightarrow> False | Some v \<Rightarrow> 1 \<le> v \<and> v \<le> 9)"

section \<open>The grade ladder\<close>

lemma grade_rank_simps:
  "grade_rank ''Poor'' = 0" "grade_rank ''Fair'' = 1" "grade_rank ''Average'' = 2"
  "grade_rank ''Good'' = 3" "grade_rank ''Good Plus'' = 4" "grade_rank ''Very Good'' = 5"
  "grade_rank ''Excellent'' = 6"
  by (simp_all add: grade_rank_def)

lemma grade_of_number: "num_value c = Some x \<Longrightarrow> calculate_overall_grade c = Inr (grade_ladder x)"
  by (simp add: calculate_overall_grade_def)

lemma grade_ladder_mono: "x \<le> y \<Longrightarrow> grade_rank (grade_ladder x) \<le> grade_rank (grade_ladder y)"
  by (simp add: grade_ladder_def grade_rank_simps)

lemma grade_ladder_bands:
  "(8 \<le> x \<longrightarrow> grade_ladder x = ''Excellent'')
   \<and> (7 \<le> x \<and> x < 8 \<longrightarrow> grade_ladder x = ''Very Good'')
   \<and> (6 \<le> x \<and> x < 7 \<longrightarrow> grade_ladder x = ''Good Plus'')
   \<and> (5 \<le> x \<and> x < 6 \<longrightarrow> grade_ladder x = ''Good'')
   \<and> (4 \<le> x \<and> x < 5 \<longrightarrow> grade_ladder x = ''Average'')
   \<and> (3 \<le> x \<and> x < 4 \<longrightarrow> grade_ladder x = ''Fair'')
   \<and> (x < 3 \<longrightarrow> grade_ladder x = ''Poor'')"
  by (simp add: grade_ladder_def)

text \<open>
  Claim C2. The overall grade is a total, monotone function of the composite: every number
  \<open>c\<close>, of value \<open>x\<close>, gets a grade; a larger composite never gets a lower grade; the grade
  is the first of the inclusive lower bounds 8, 7, 6, 5, 4, 3 that \<open>x\<close> reaches, and
  \<open>Poor\<close> below 3; the six boundary values get the grade that starts there.
\<close>

theorem calculate_overall_grade_ladder:
  assumes "num_value c = Some x" and "num_value c' = Some y" and "x \<le> y"
  shows "\<exists>g h. calculate_overall_grade c = Inr g \<and> calculate_overall_grade c' = Inr h
           \<and> grade_rank g \<le> grade_rank h
           \<and> (8 \<le> x \<longrightarrow> g = ''Excellent'')
           \<and> (7 \<le> x \<and> x < 8 \<longrightarrow> g = ''Very Good'')
           \<and> (6 \<le> x \<and> x < 7 \<longrightarrow> g = ''Good Plus'')
           \<and> (5 \<le> x \<and> x < 6 \<longrightarrow> g = ''Good'')
           \<and> (4 \<le> x \<and> x < 5 \<longrightarrow> g = ''Average'')
           \<and> (3 \<le> x \<and> x < 4 \<longrightarrow> g = ''Fair'')
           \<and> (x < 3 \<longrightarrow> g = ''Poor'')
           \<and> calculate_overall_grade (JFloat 8) = Inr ''Excellent''
           \<and> calculate_overall_grade (JFloat 7) = Inr ''Very Good''
           \<and> calculate_overall_grade (JFloat 6) = Inr ''Good Plus''
           \<and> calculate_overall_grade (JFloat 5) = Inr ''Good''
           \<and> calculate_overall_grade (JFloat 4) = Inr ''Average''
           \<and> calculate_overall_grade (JFloat 3) = Inr ''Fair''"
proof -
  have g: "calculate_overall_grade c = Inr (grade_ladder x)"
    using assms(1) by (rule grade_of_number)
  have h: "calculate_overall_grade c' = Inr (grade_ladder y)"
    using assms(2) by (rule grade_of_number)
  have m: "grade_rank (grade_ladder x) \<le> grade_rank (grade_ladder y)"
    using assms(3) by (rule grade_ladder_mono)
  have b: "calculate_overall_grade (JFloat 8) = Inr ''Excellent''"
    "calculate_overall_grade (JFloat 7) = Inr ''Very Good''"
    "calculate_overall_grade (JFloat 6) = Inr ''Good Plus''"
    "calculate_overall_grade (JFloat 5) = Inr ''Good''"
    "calculate_overall_grade (JFloat 4) = Inr ''Average''"
    "calculate_overall_grade (JFloat 3) = Inr ''Fair''"
    by (simp_all add: calculate_overall_grade_def grade_ladder_def)
  from g h m b grade_ladder_bands [of x] show ?thesis by blast
qed

theorem calculate_overall_grade_ladder_witness:
  "num_value (JFloat (13 / 2)) = Some (13 / 2) \<and> num_value (JInt 9) = Some 9
   \<and> (13 / 2 :: rat) \<le> 9
   \<and> calculate_overall_grade (JFloat (13 / 2)) = Inr ''Good Plus''
   \<and> calculate_overall_grade (JInt 9) = Inr ''Excellent''
   \<and> grade_rank ''Good Plus'' \<le> grade_rank ''Excellent''"
proof -
  have a: "num_value (JFloat (13 / 2)) = Some (13 / 2)" by simp
  have b: "num_value (JInt 9) = Some 9" by simp
  have c: "(13 / 2 :: rat) \<le> 9" by simp
  from calculate_overall_grade_ladder [OF a b c]
  obtain g h where gh: "calculate_overall_grade (JFloat (13 / 2)) = Inr g"
    "calculate_overall_grade (JInt 9) = Inr h" "grade_rank g \<le> grade_rank h"
    "(6::rat) \<le> 13 / 2 \<and> (13 / 2 :: rat) < 7 \<longrightarrow> g = ''Good Plus''"
    "(8::rat) \<le> 13 / 2 \<longrightarrow> g = ''Excellent''"
    by blast
  have g: "g = ''Good Plus''" using gh(4) by simp
  have h: "h = ''Excellent''"
    using gh(2) by (simp add: calculate_overall_grade_def grade_ladder_def)
  from a b c gh(1,2,3) g h show ?thesis by simp
qed

section \<open>The score interpreter\<close>

lemma descriptions_shape:
  assumes "map_of descriptions t = Some td"
  shows "\<exists>a1 a5 a9. td = [(1, a1), (5, a5), (9, a9)]"
  using assms by (auto simp: descriptions_def split: if_splits)

lemma show_int_digit:
  "0 \<le> n \<Longrightarrow> n \<le> 9 \<Longrightarrow> show_int n = [''0123456789'' ! nat n]"
  by (simp add: show_int_def)

lemma get_score_description_unknown:
  "map_of descriptions t = None \<Longrightarrow> get_score_description t (JInt n) = Inr (''Score: '' @ show_int n)"
  by (simp add: get_score_description_def bind_r_def)

lemma get_score_description_known:
  assumes "map_of descriptions t = Some [(1, a1), (5, a5), (9, a9)]"
  shows "get_score_description t (JInt n) =
     Inr (if n = 1 then a1 else if n = 5 then a5 else if n = 9 then a9
          else if n < 5 then ''Below average ('' @ a1 @ '' to '' @ a5 @ '')''
          else ''Above average ('' @ a5 @ '' to '' @ a9 @ '')'')"
  using assms by (simp add: get_score_description_def bind_r_def less_than_def range_text_def)

text \<open>
  Claim C8. The score interpreter returns a string for every trait identifier and every
  integer score from 1 to 9: for an unrecognised trait the generic text with the score; for
  a known trait, whose table holds the three anchors, the anchor text at 1, 5 and 9, the
  "Below average" text built from the anchors at 1 and 5 below 5, and the "Above average"
  text built from the anchors at 5 and 9 above 5.
\<close>

theorem get_score_description_total:
  assumes "1 \<le> n" and "n \<le> 9"
  shows "(\<exists>s. get_score_description t (JInt n) = Inr s)
     \<and> (map_of descriptions t = None \<longrightarrow>
          get_score_description t (JInt n) = Inr (''Score: '' @ [''0123456789'' ! nat n]))
     \<and> (\<forall>td. map_of descriptions t = Some td \<longrightarrow>
          (\<exists>a1 a5 a9. td = [(1, a1), (5, a5), (9, a9)] \<and>
            get_score_description t (JInt n) =
              Inr (if n = 1 then a1 else if n = 5 then a5 else if n = 9 then a9
                   else if n < 5 then ''Below average ('' @ a1 @ '' to '' @ a5 @ '')''
                   else ''Above average ('' @ a5 @ '' to '' @ a9 @ '')'')))"
proof (cases "map_of descriptions t")
  case None
  then show ?thesis
    using assms by (simp add: get_score_description_unknown show_int_digit)
next
  case (Some td)
  then obtain a1 a5 a9 where td: "td = [(1, a1), (5, a5), (9, a9)]"
    using descriptions_shape by blast
  with Some show ?thesis
    using get_score_description_known [of t a1 a5 a9 n] by simp
qed

theorem get_score_description_total_witness:
  "(1::int) \<le> 3 \<and> (3::int) \<le> 9
   \<and> get_score_description ''stature'' (JInt 3) = Inr ''Below average (Very short/small to Average height)''
   \<and> get_score_description ''horn_shape'' (JInt 3) = Inr ''Score: 3''"
proof -
  have a: "(1::int) \<le> 3" and b: "(3::int) \<le> 9" by simp_all
  have k: "map_of descriptions ''stature'' = Some [(1, ''Very short/small''), (5, ''Average height''), (9, ''Very tall/large'')]"
    by (simp add: descriptions_def)
  have u: "map_of descriptions ''horn_shape'' = None"
    by (simp add: descriptions_def)
  from get_score_description_total [OF a b, of "''stature''"] k
  have 1: "get_score_description ''stature'' (JInt 3) = Inr ''Below average (Very short/small to Average height)''"
    by simp
  from get_score_description_total [OF a b, of "''horn_shape''"] u
  have 2: "get_score_description ''horn_shape'' (JInt 3) = Inr ''Score: 3''"
    by simp
  from a b 1 2 show ?thesis by simp
qed

section \<open>Results as values\<close>

lemma bind_r_simps [simp]:
  "bind_r (Inl e) f = Inl e" "bind_r (Inr x) f = f x"
  by (simp_all add: bind_r_def)

lemma bind_r_InrE:
  assumes "bind_r m f = Inr y"
  obtains x where "m = Inr x" and "f x = Inr y"
  using assms by (cases m) simp_all

lemma py_items_Inr_iff: "py_items x = Inr d \<longleftrightarrow> x = JDict d"
  by (cases x) (simp_all add: py_items_def)

lemma py_get_Inr_iff: "py_get x k dflt = Inr v \<longleftrightarrow> (\<exists>d. x = JDict d \<and> v = get_or d k dflt)"
  by (cases x) (auto simp: py_get_def)

lemma format_scores_Inr_iff:
  "format_scores x category = Inr fs \<longleftrightarrow> (\<exists>d. x = JDict d \<and> format_items d category = Inr fs)"
  by (cases x) (simp_all add: format_scores_def py_items_def)

lemma format_report_Inr:
  assumes "format_report now_id now_iso r = Inr rep"
  shows "\<exists>st ud c.
    get_or r ''structural_scores'' (JDict []) = JDict st
    \<and> get_or r ''udder_scores'' (JDict []) = JDict ud
    \<and> format_items st ''structural'' = Inr (structural (scores rep))
    \<and> format_items ud ''udder'' = Inr (udder (scores rep))
    \<and> composites rep = JDict c
    \<and> get_or r ''composite_scores'' (JDict []) = JDict c
    \<and> calculate_overall_grade (get_or c ''final_composite'' (JInt 5)) = Inr (overall_grade rep)
    \<and> animal_info rep =
            [(''type'', get_or r ''animal_type'' (JStr ''unknown'')),
             (''breed'', get_or r ''breed_guess'' (JStr ''unknown'')),
             (''sex'', get_or r ''sex'' (JStr ''unknown''))]
    \<and> image_assessment rep =
            [(''quality'', get_or r ''image_quality'' (JStr ''fair'')),
             (''angle'', get_or r ''image_angle'' (JStr ''unknown'')),
             (''body_parts_visible'', get_or r ''body_parts_visible'' (JDict []))]"
  using assms unfolding format_report_def
  apply (elim bind_r_InrE)
  apply (clarsimp simp: format_scores_Inr_iff py_get_Inr_iff)
  done

section \<open>The export\<close>

lemma dict_set_fresh: "k \<notin> fst ` set d \<Longrightarrow> dict_set d k v = d @ [(k, v)]"
  by (induction d) auto

lemma flatten_scores_distinct:
  "distinct (map fst acc @ map trait_id fs) \<Longrightarrow>
   flatten_scores acc fs = acc @ map (\<lambda>f. (trait_id f, score f)) fs"
proof (induction fs arbitrary: acc)
  case Nil
  then show ?case by simp
next
  case (Cons f fs)
  have fresh: "trait_id f \<notin> fst ` set acc" using Cons.prems by auto
  have "distinct (map fst (acc @ [(trait_id f, score f)]) @ map trait_id fs)"
    using Cons.prems by auto
  from Cons.IH [OF this] show ?case
    by (simp add: dict_set_fresh [OF fresh])
qed

lemma format_items_pairs:
  "format_items items category = Inr fs \<Longrightarrow>
   map (\<lambda>f. (trait_id f, score f)) fs = map (\<lambda>(t, data). (t, entry_score data)) items"
proof (induction items arbitrary: fs)
  case Nil
  then show ?case by simp
next
  case (Cons entry items)
  obtain t data where entry: "entry = (t, data)" by (cases entry)
  from Cons.prems obtain sd rest where
    rest: "format_items items category = Inr rest"
    and fs: "trait_id (hd fs) = t" "score (hd fs) = entry_score data" "tl fs = rest" "fs \<noteq> []"
    unfolding entry by (auto elim!: bind_r_InrE simp: Let_def split: prod.splits)
  from Cons.IH [OF rest] fs show ?case
    by (cases fs) (simp_all add: entry)
qed



text \<open>
  Claim C5. When a report has been built from a payload whose two score maps are dicts, the
  export of the report returns, under \<open>structural_scores\<close> and \<open>udder_scores\<close>, a
  mapping with the keys of the payload's map, in its order, each with the score of its entry:
  the value under \<^verbatim>\<open>"score"\<close> of an entry that is a dict (\<^verbatim>\<open>None\<close> when it is null or
  missing), or the entry itself when it is not a dict. Texts and notes are dropped.
\<close>

theorem export_for_bpa_scores:
  assumes "format_report now_id now_iso r = Inr rep"
    and "get_or r ''structural_scores'' (JDict []) = JDict ss"
    and "get_or r ''udder_scores'' (JDict []) = JDict us"
    and "distinct (map fst ss)" and "distinct (map fst us)"
  shows "\<exists>e. export_for_bpa rep = Inr e
           \<and> map_of e ''structural_scores'' = Some (JDict (map (\<lambda>(t, data). (t, entry_score data)) ss))
           \<and> map_of e ''udder_scores'' = Some (JDict (map (\<lambda>(t, data). (t, entry_score data)) us))"
proof -
  from format_report_Inr [OF assms(1)] obtain st ud c where
    st: "get_or r ''structural_scores'' (JDict []) = JDict st"
    and ud: "get_or r ''udder_scores'' (JDict []) = JDict ud"
    and fst: "format_items st ''structural'' = Inr (structural (scores rep))"
    and fud: "format_items ud ''udder'' = Inr (udder (scores rep))"
    and c: "composites rep = JDict c"
    by blast
  from st ud assms(2,3) have eq: "st = ss" "ud = us" by simp_all
  let ?pairs = "map (\<lambda>f. (trait_id f, score f))"
  let ?entries = "map (\<lambda>(t, data). (t, entry_score data))"
  have ps: "?pairs (structural (scores rep)) = ?entries ss"
    using format_items_pairs [OF fst] by (simp add: eq)
  have pu: "?pairs (udder (scores rep)) = ?entries us"
    using format_items_pairs [OF fud] by (simp add: eq)
  have "map trait_id (structural (scores rep)) = map fst (?pairs (structural (scores rep)))"
    by (simp add: comp_def)
  also have "\<dots> = map fst ss" by (simp only: ps) (simp add: comp_def case_prod_beta)
  finally have ds: "distinct (map trait_id (structural (scores rep)))" using assms(4) by simp
  have "map trait_id (udder (scores rep)) = map fst (?pairs (udder (scores rep)))"
    by (simp add: comp_def)
  also have "\<dots> = map fst us" by (simp only: pu) (simp add: comp_def case_prod_beta)
  finally have du: "distinct (map trait_id (udder (scores rep)))" using assms(5) by simp
  have fs: "flatten_scores [] (structural (scores rep)) = ?entries ss"
    using flatten_scores_distinct [of "[]" "structural (scores rep)"] ds ps by simp
  have fu: "flatten_scores [] (udder (scores rep)) = ?entries us"
    using flatten_scores_distinct [of "[]" "udder (scores rep)"] du pu by simp
  show ?thesis
    by (simp add: export_for_bpa_def c py_get_def fs fu)
qed


theorem export_for_bpa_scores_witness:
  "\<exists>rep e.
     format_report ''20240101120000'' ''2024-01-01T12:00:00''
       [(''structural_scores'',
          JDict [(''stature'', JDict [(''score'', JInt 7), (''notes'', JStr ''tall'')]),
                 (''horn_shape'', JDict [(''score'', JNull), (''notes'', JStr ''not visible'')])]),
        (''udder_scores'', JDict [(''fore_udder'', JDict [(''score'', JInt 4)])])] = Inr rep
     \<and> export_for_bpa rep = Inr e
     \<and> map_of e ''structural_scores'' = Some (JDict [(''stature'', JInt 7), (''horn_shape'', JNull)])
     \<and> map_of e ''udder_scores'' = Some (JDict [(''fore_udder'', JInt 4)])"
proof -
  let ?ss = "[(''stature'', JDict [(''score'', JInt 7), (''notes'', JStr ''tall'')]),
              (''horn_shape'', JDict [(''score'', JNull), (''notes'', JStr ''not visible'')])]"
  let ?us = "[(''fore_udder'', JDict [(''score'', JInt 4)])]"
  let ?r = "[(''structural_scores'', JDict ?ss), (''udder_scores'', JDict ?us)]"
  have "\<exists>rep. format_report ''20240101120000'' ''2024-01-01T12:00:00'' ?r = Inr rep"
    by (simp add: format_report_def format_scores_def py_items_def py_get_def get_or_def
        entry_score_def entry_notes_def trait_defs_def ATC_TRAITS_def Let_def
        get_score_description_def descriptions_def less_than_def range_text_def
        calculate_overall_grade_def)
  then obtain rep where rep: "format_report ''20240101120000'' ''2024-01-01T12:00:00'' ?r = Inr rep"
    by blast
  have s: "get_or ?r ''structural_scores'' (JDict []) = JDict ?ss" by (simp add: get_or_def)
  have u: "get_or ?r ''udder_scores'' (JDict []) = JDict ?us" by (simp add: get_or_def)
  have ds: "distinct (map fst ?ss)" by simp
  have du: "distinct (map fst ?us)" by simp
  from export_for_bpa_scores [OF rep s u ds du] rep show ?thesis
    by (simp add: entry_score_def get_or_def)
qed

section \<open>The parsing boundary\<close>

lemma parse_response_decode_error:
  assumes "loads (py_strip (let t = py_strip response_text;
                               t = (if startswith t ''```json'' then drop 7 t else t);
                               t = (if startswith t ''```'' then drop 3 t else t)
                           in if endswith t ''```'' then take (length t - 3) t else t)) = Inl msg"
  shows "parse_response loads response_text =
           Inr [(''error'', JBool True),
                (''message'', JStr (''Failed to parse AI response: '' @ msg)),
                (''raw_response'', JStr response_text)]"
  using assms by (simp add: parse_response_def Let_def)

text \<open>
  Claim C9. The text \<^verbatim>\<open>5\<close> is decoded by \<^verbatim>\<open>json.loads\<close> to the integer 5, which is
  not the expected structure. The function returns neither the parse-failure result with the
  raw text nor a structured result: it raises \<^verbatim>\<open>TypeError\<close>, which it does not catch.
\<close>

theorem parse_response_non_object:
  assumes "loads ''5'' = Inr (JInt 5)"
  shows "parse_response loads ''5'' = Inl TypeError"
  using assms
  by (simp add: parse_response_def py_strip_def is_space_def startswith_def endswith_def
      validate_result_def)

theorem parse_response_non_object_witness:
  "parse_response (\<lambda>text. Inr (JInt 5)) ''5'' = Inl TypeError"
  using parse_response_non_object [of "\<lambda>text. Inr (JInt 5)"] by simp

section \<open>Properties of the rounding\<close>

lemma round_half_even_of_int: "round_half_even (of_int n) = n"
  by (simp add: round_half_even_def)

lemma round_half_even_range:
  "round_half_even x = \<lfloor>x\<rfloor> \<or> round_half_even x = \<lfloor>x\<rfloor> + 1"
  by (simp add: round_half_even_def Let_def)

lemma round_half_even_mono:
  assumes "x \<le> y"
  shows "round_half_even x \<le> round_half_even y"
proof (cases "\<lfloor>x\<rfloor> = \<lfloor>y\<rfloor>")
  case True
  with assms show ?thesis
    by (auto simp: round_half_even_def Let_def)
next
  case False
  with assms have "\<lfloor>x\<rfloor> + 1 \<le> \<lfloor>y\<rfloor>"
    using floor_mono [of x y] by linarith
  moreover have "round_half_even x \<le> \<lfloor>x\<rfloor> + 1"
    using round_half_even_range [of x] by linarith
  moreover have "\<lfloor>y\<rfloor> \<le> round_half_even y"
    using round_half_even_range [of y] by linarith
  ultimately show ?thesis by linarith
qed

lemma ilog2_bounds:
  assumes "0 < q"
  shows "2 powi (ilog2 q) \<le> q" and "q < 2 powi (ilog2 q + 1)"
proof -
  obtain a b where ab: "quotient_of q = (a, b)" by (cases "quotient_of q")
  then have b: "0 < b" and q: "q = of_int a / of_int b"
    by (simp_all add: quotient_of_denom_pos quotient_of_div)
  with assms have a: "0 < a"
    by (simp add: zero_less_divide_iff)
  define d where "d = bitlen a - bitlen b"
  have la: "1 \<le> bitlen a" and lb: "1 \<le> bitlen b"
    using a b by (simp_all add: bitlen_alt_def)
  have a_hi: "(of_int a :: rat) < 2 powi (bitlen a)"
  proof -
    have "a < 2 ^ nat (bitlen a)" using bitlen_bounds [OF a] by simp
    then have "(of_int a :: rat) < of_int (2 ^ nat (bitlen a))" by (simp only: of_int_less_iff)
    then show ?thesis using la by (simp add: power_int_def)
  qed
  have b_lo: "2 powi (bitlen b - 1) \<le> (of_int b :: rat)"
  proof -
    have "2 ^ nat (bitlen b - 1) \<le> b" using bitlen_bounds [OF b] by simp
    then have "(of_int (2 ^ nat (bitlen b - 1)) :: rat) \<le> of_int b" by (simp only: of_int_le_iff)
    then show ?thesis using lb by (simp add: power_int_def)
  qed
  have b_hi: "(of_int b :: rat) < 2 powi (bitlen b)"
  proof -
    have "b < 2 ^ nat (bitlen b)" using bitlen_bounds [OF b] by simp
    then have "(of_int b :: rat) < of_int (2 ^ nat (bitlen b))" by (simp only: of_int_less_iff)
    then show ?thesis using lb by (simp add: power_int_def)
  qed
  have a_lo: "2 powi (bitlen a - 1) \<le> (of_int a :: rat)"
  proof -
    have "2 ^ nat (bitlen a - 1) \<le> a" using bitlen_bounds [OF a] by simp
    then have "(of_int (2 ^ nat (bitlen a - 1)) :: rat) \<le> of_int a" by (simp only: of_int_le_iff)
    then show ?thesis using la by (simp add: power_int_def)
  qed
  have bpos: "(0::rat) < of_int b" using b by simp
  have hi: "q < 2 powi (d + 1)"
  proof -
    have "of_int a < (2::rat) powi (d + 1) * 2 powi (bitlen b - 1)"
      using a_hi by (simp add: d_def flip: power_int_add)
    also have "\<dots> \<le> 2 powi (d + 1) * of_int b"
      using b_lo by (simp add: mult_left_mono)
    finally show ?thesis using bpos by (simp add: q pos_divide_less_eq)
  qed
  have lo: "2 powi (d - 1) < q"
  proof -
    have "(2::rat) powi (d - 1) * of_int b < 2 powi (d - 1) * 2 powi (bitlen b)"
      using b_hi by (simp add: mult_strict_left_mono)
    also have "\<dots> = 2 powi (bitlen a - 1)"
      by (simp add: d_def flip: power_int_add)
    also have "\<dots> \<le> of_int a" by (rule a_lo)
    finally show ?thesis using bpos by (simp add: q pos_less_divide_eq)
  qed
  have e: "ilog2 q = (if 2 powi d \<le> q then d else d - 1)"
    by (simp add: ilog2_def ab d_def Let_def)
  show "2 powi (ilog2 q) \<le> q"
    using lo by (simp add: e)
  show "q < 2 powi (ilog2 q + 1)"
    using hi by (auto simp add: e not_le)
qed

lemma ilog2_mono:
  assumes "0 < p" "p \<le> q"
  shows "ilog2 p \<le> ilog2 q"
proof (rule ccontr)
  assume "\<not> ilog2 p \<le> ilog2 q"
  then have "ilog2 q + 1 \<le> ilog2 p" by simp
  then have "(2::rat) powi (ilog2 q + 1) \<le> 2 powi (ilog2 p)"
    by (simp add: power_int_increasing)
  also have "\<dots> \<le> p" using assms(1) by (rule ilog2_bounds)
  finally have "2 powi (ilog2 q + 1) \<le> q" using assms(2) by simp
  moreover have "q < 2 powi (ilog2 q + 1)" using assms by (intro ilog2_bounds) simp
  ultimately show False by simp
qed

lemma pow2_add: "(2::rat) powi a * 2 powi b = 2 powi (a + b)"
  by (simp add: power_int_add)

lemma pow2_diff: "(2::rat) powi a / 2 powi b = 2 powi (a - b)"
  by (simp add: power_int_diff)

lemma ulp_pos: "0 < ulp q"
  by (simp add: ulp_def)

lemma fl_pos: "0 < q \<Longrightarrow> fl q = of_int (round_half_even (q / ulp q)) * ulp q"
  by (simp add: fl_def)

lemma fl_mono_pos:
  assumes "0 < p" "p \<le> q"
  shows "fl p \<le> fl q"
proof -
  define E1 where "E1 = max (ilog2 p) (- 1022)"
  define E2 where "E2 = max (ilog2 q) (- 1022)"
  have q: "0 < q" using assms by simp
  have u1: "ulp p = 2 powi (E1 - 52)" using assms(1) by (simp add: ulp_def E1_def)
  have u2: "ulp q = 2 powi (E2 - 52)" using q by (simp add: ulp_def E2_def)
  have le: "E1 \<le> E2" using ilog2_mono [OF assms] by (simp add: E1_def E2_def)
  show ?thesis
  proof (cases "E1 = E2")
    case True
    then have "ulp p = ulp q" by (simp add: u1 u2)
    moreover have "p / ulp q \<le> q / ulp q"
      using assms(2) ulp_pos [of q] by (simp add: divide_right_mono)
    ultimately show ?thesis
      using assms(1) q ulp_pos [of q]
      by (simp add: fl_pos round_half_even_mono mult_right_mono)
  next
    case False
    with le have lt: "E1 + 1 \<le> E2" by simp
    then have E2: "E2 = ilog2 q" by (simp add: E1_def E2_def max_def split: if_splits)
    have "p < 2 powi (ilog2 p + 1)" using assms(1) by (rule ilog2_bounds)
    also have "\<dots> \<le> 2 powi (E1 + 1)" by (simp add: E1_def power_int_increasing)
    finally have "p / ulp p \<le> 2 powi (E1 + 1) / ulp p"
      using ulp_pos [of p] by (simp add: divide_right_mono)
    also have "\<dots> = 2 powi (E1 + 1 - (E1 - 52))" unfolding u1 by (rule pow2_diff)
    also have "\<dots> = 2 powi 53" by simp
    also have "\<dots> = of_int (2 ^ 53)" by simp
    finally have "round_half_even (p / ulp p) \<le> 2 ^ 53"
      using round_half_even_mono round_half_even_of_int by metis
    then have "(of_int (round_half_even (p / ulp p)) :: rat) \<le> of_int (2 ^ 53)"
      by (simp only: of_int_le_iff)
    then have "fl p \<le> of_int (2 ^ 53) * ulp p"
      using assms(1) ulp_pos [of p] by (simp only: fl_pos mult_right_mono)
    also have "\<dots> = 2 powi 53 * 2 powi (E1 - 52)" by (simp add: u1)
    also have "\<dots> = 2 powi (53 + (E1 - 52))" by (rule pow2_add)
    also have "\<dots> = 2 powi (E1 + 1)" by (rule arg_cong [where f = "power_int 2"]) simp
    also have "\<dots> \<le> 2 powi E2" using lt by (simp add: power_int_increasing)
    finally have left: "fl p \<le> 2 powi E2" .
    have "2 powi E2 \<le> q" unfolding E2 using q by (rule ilog2_bounds)
    then have "2 powi E2 / ulp q \<le> q / ulp q"
      using ulp_pos [of q] by (simp add: divide_right_mono)
    moreover have "2 powi E2 / ulp q = 2 powi (E2 - (E2 - 52))" unfolding u2 by (rule pow2_diff)
    moreover have "(2::rat) powi (E2 - (E2 - 52)) = of_int (2 ^ 52)" by simp
    ultimately have "of_int (2 ^ 52) \<le> q / ulp q" by simp
    then have "2 ^ 52 \<le> round_half_even (q / ulp q)"
      using round_half_even_mono round_half_even_of_int by metis
    then have "(of_int (2 ^ 52) :: rat) \<le> of_int (round_half_even (q / ulp q))"
      by (simp only: of_int_le_iff)
    then have "of_int (2 ^ 52) * ulp q \<le> fl q"
      using q ulp_pos [of q] by (simp only: fl_pos mult_right_mono)
    moreover have "of_int (2 ^ 52) * ulp q = 2 powi 52 * 2 powi (E2 - 52)" by (simp add: u2)
    moreover have "(2::rat) powi 52 * 2 powi (E2 - 52) = 2 powi (52 + (E2 - 52))" by (rule pow2_add)
    ultimately have "2 powi E2 \<le> fl q" by simp
    with left show ?thesis by simp
  qed
qed

lemma fl_minus: "fl (- q) = - fl q"
  by (simp add: fl_def ulp_def)

lemma fl_nonneg: "0 \<le> q \<Longrightarrow> 0 \<le> fl q"
proof -
  assume "0 \<le> q"
  have "0 \<le> round_half_even (\<bar>q\<bar> / ulp q)"
    using round_half_even_mono [of 0 "\<bar>q\<bar> / ulp q"] round_half_even_of_int [of 0] ulp_pos [of q]
    by simp
  with \<open>0 \<le> q\<close> show ?thesis using ulp_pos [of q] by (simp add: fl_def sgn_if)
qed

lemma fl_mono:
  assumes "p \<le> q"
  shows "fl p \<le> fl q"
proof -
  consider "0 < p" | "p \<le> 0" "0 \<le> q" | "q < 0" by linarith
  then show ?thesis
  proof cases
    case 1
    then show ?thesis using assms by (rule fl_mono_pos)
  next
    case 2
    then have "fl p \<le> 0" using fl_nonneg [of "- p"] by (simp add: fl_minus)
    moreover have "0 \<le> fl q" using 2 by (simp add: fl_nonneg)
    ultimately show ?thesis by simp
  next
    case 3
    then have "fl (- q) \<le> fl (- p)" using assms by (intro fl_mono_pos) simp_all
    then show ?thesis by (simp add: fl_minus)
  qed
qed

lemma py_round2_mono: "x \<le> y \<Longrightarrow> py_round2 x \<le> py_round2 y"
  unfolding py_round2_def
  by (intro fl_mono divide_right_mono) (simp_all add: round_half_even_mono)

lemma fl_1: "fl 1 = 1" by code_simp
lemma fl_9: "fl 9 = 9" by code_simp
lemma fl_06: "fl (6/10) = 5404319552844595 / 9007199254740992" by code_simp

section \<open>The metadata of the report\<close>

text \<open>
  Claim C7, as stated, fails: the report built from the empty payload has the image quality
  \<open>fair\<close>, not \<open>unknown\<close>.
\<close>

theorem format_report_quality_default_counterexample:
  "format_report ''20240101120000'' ''2024-01-01T12:00:00'' [] =
     Inr \<lparr>report_id = ''20240101120000'',
          generated_at = ''2024-01-01T12:00:00'',
          animal_info = [(''type'', JStr ''unknown''), (''breed'', JStr ''unknown''), (''sex'', JStr ''unknown'')],
          image_assessment = [(''quality'', JStr ''fair''), (''angle'', JStr ''unknown''),
                              (''body_parts_visible'', JDict [])],
          scores = \<lparr>structural = [], udder = []\<rparr>,
          composites = JDict [],
          overall_grade = ''Good'',
          assessment = JStr '''',
          recommendations = JList []\<rparr>"
  by (simp add: format_report_def format_scores_def py_items_def py_get_def get_or_def
      calculate_overall_grade_def grade_ladder_def)


text \<open>
  Claim C7, amended. A report built from a payload carries the payload's animal type, breed
  guess, sex, image quality and image angle as they are; a missing type, breed, sex or angle
  is the string \<open>unknown\<close>, a missing image quality is the string \<open>fair\<close>.
\<close>

theorem format_report_metadata:
  assumes "format_report now_id now_iso r = Inr rep"
  shows "map_of (animal_info rep) ''type'' =
           Some (case map_of r ''animal_type'' of None \<Rightarrow> JStr ''unknown'' | Some v \<Rightarrow> v)
       \<and> map_of (animal_info rep) ''breed'' =
           Some (case map_of r ''breed_guess'' of None \<Rightarrow> JStr ''unknown'' | Some v \<Rightarrow> v)
       \<and> map_of (animal_info rep) ''sex'' =
           Some (case map_of r ''sex'' of None \<Rightarrow> JStr ''unknown'' | Some v \<Rightarrow> v)
       \<and> map_of (image_assessment rep) ''quality'' =
           Some (case map_of r ''image_quality'' of None \<Rightarrow> JStr ''fair'' | Some v \<Rightarrow> v)
       \<and> map_of (image_assessment rep) ''angle'' =
           Some (case map_of r ''image_angle'' of None \<Rightarrow> JStr ''unknown'' | Some v \<Rightarrow> v)"
proof -
  from format_report_Inr [OF assms] have
    a: "animal_info rep =
            [(''type'', get_or r ''animal_type'' (JStr ''unknown'')),
             (''breed'', get_or r ''breed_guess'' (JStr ''unknown'')),
             (''sex'', get_or r ''sex'' (JStr ''unknown''))]"
    and i: "image_assessment rep =
            [(''quality'', get_or r ''image_quality'' (JStr ''fair'')),
             (''angle'', get_or r ''image_angle'' (JStr ''unknown'')),
             (''body_parts_visible'', get_or r ''body_parts_visible'' (JDict []))]"
    by blast+
  show ?thesis by (simp add: a i get_or_def)
qed

theorem format_report_metadata_witness:
  "\<exists>rep. format_report ''20240101120000'' ''2024-01-01T12:00:00''
            [(''animal_type'', JStr ''buffalo''), (''image_angle'', JStr ''side'')] = Inr rep
     \<and> map_of (animal_info rep) ''type'' = Some (JStr ''buffalo'')
     \<and> map_of (animal_info rep) ''breed'' = Some (JStr ''unknown'')
     \<and> map_of (animal_info rep) ''sex'' = Some (JStr ''unknown'')
     \<and> map_of (image_assessment rep) ''quality'' = Some (JStr ''fair'')
     \<and> map_of (image_assessment rep) ''angle'' = Some (JStr ''side'')"
proof -
  let ?r = "[(''animal_type'', JStr ''buffalo''), (''image_angle'', JStr ''side'')]"
  have "\<exists>rep. format_report ''20240101120000'' ''2024-01-01T12:00:00'' ?r = Inr rep"
    by (simp add: format_report_def format_scores_def py_items_def py_get_def get_or_def
        calculate_overall_grade_def)
  then obtain rep where rep: "format_report ''20240101120000'' ''2024-01-01T12:00:00'' ?r = Inr rep"
    by blast
  from format_report_metadata [OF rep] rep show ?thesis by simp
qed

section \<open>The composites in the report\<close>

lemma map_of_dict_set: "map_of (dict_set d k v) k' = (if k' = k then Some v else map_of d k')"
  by (induction d) auto

lemma map_of_fill_defaults:
  "map_of (fill_defaults r ds) k = (case map_of r k of Some v \<Rightarrow> Some v | None \<Rightarrow> map_of ds k)"
proof (induction ds arbitrary: r)
  case Nil
  then show ?case by (simp split: option.splits)
next
  case (Cons d ds)
  obtain key dflt where d: "d = (key, dflt)" by (cases d)
  show ?case
    unfolding d by (auto simp: Cons.IH map_of_dict_set split: option.splits)
qed

lemma get_or_fill_defaults:
  "map_of defaults k = Some dflt \<Longrightarrow> get_or (fill_defaults r defaults) k dflt = get_or r k dflt"
  by (simp add: get_or_def map_of_fill_defaults split: option.splits)

lemma calculate_composite_scores_cong:
  assumes "get_or r ''structural_scores'' (JDict []) = get_or r' ''structural_scores'' (JDict [])"
    and "get_or r ''udder_scores'' (JDict []) = get_or r' ''udder_scores'' (JDict [])"
  shows "calculate_composite_scores r = calculate_composite_scores r'"
  by (simp add: calculate_composite_scores_def assms)

lemma calculate_composite_scores_fill_defaults:
  "calculate_composite_scores (fill_defaults r defaults) = calculate_composite_scores r"
  by (rule calculate_composite_scores_cong; rule get_or_fill_defaults) (simp_all add: defaults_def)

lemma calculate_composite_scores_shape:
  assumes "calculate_composite_scores r = Inr c"
  shows "\<exists>sc uc fc. c = JDict [(''structural_composite'', sc), (''udder_composite'', uc),
                                  (''final_composite'', fc)]"
  using assms unfolding calculate_composite_scores_def Let_def
  by (elim bind_r_InrE) auto

lemma py_round2_9: "py_round2 9 = 9" by code_simp

lemma calculate_composite_scores_stature_9:
  "calculate_composite_scores
     [(''structural_scores'', JDict [(''stature'', JDict [(''score'', JInt 9)])])] =
     Inr (JDict [(''structural_composite'', JFloat 9), (''udder_composite'', JNull),
                 (''final_composite'', JFloat 9)])"
  by (simp add: calculate_composite_scores_def py_items_def get_or_def average_def py_sum_def
      py_truediv_def float_result_def py_round_def fl_9 py_round2_9)

text \<open>
  Claim C6, as stated, fails: \<open>format_report\<close> does not call the calculator, it copies
  the field \<open>composite_scores\<close> of its argument. For a raw payload with the one score 9,
  the calculator returns the composites 9.0, absent, 9.0, and the report built from the same
  payload embeds the empty dict and the grade \<open>Good\<close>.
\<close>

theorem format_report_ignores_scores_counterexample:
  "calculate_composite_scores
     [(''structural_scores'', JDict [(''stature'', JDict [(''score'', JInt 9)])])] =
     Inr (JDict [(''structural_composite'', JFloat 9), (''udder_composite'', JNull),
                 (''final_composite'', JFloat 9)])
   \<and> format_report ''20240101120000'' ''2024-01-01T12:00:00''
     [(''structural_scores'', JDict [(''stature'', JDict [(''score'', JInt 9)])])] =
     Inr \<lparr>report_id = ''20240101120000'',
          generated_at = ''2024-01-01T12:00:00'',
          animal_info = [(''type'', JStr ''unknown''), (''breed'', JStr ''unknown''), (''sex'', JStr ''unknown'')],
          image_assessment = [(''quality'', JStr ''fair''), (''angle'', JStr ''unknown''),
                              (''body_parts_visible'', JDict [])],
          scores = \<lparr>structural =
                      [\<lparr>trait_id = ''stature'', trait_name = ''Stature'',
                        description = ''Height at withers'', score = JInt 9,
                        score_description = ''Very tall/large'', trait_notes = JStr ''''\<rparr>],
                    udder = []\<rparr>,
          composites = JDict [],
          overall_grade = ''Good'',
          assessment = JStr '''',
          recommendations = JList []\<rparr>"
proof -
  note a = calculate_composite_scores_stature_9
  have b: "format_report ''20240101120000'' ''2024-01-01T12:00:00''
     [(''structural_scores'', JDict [(''stature'', JDict [(''score'', JInt 9)])])] =
     Inr \<lparr>report_id = ''20240101120000'',
          generated_at = ''2024-01-01T12:00:00'',
          animal_info = [(''type'', JStr ''unknown''), (''breed'', JStr ''unknown''), (''sex'', JStr ''unknown'')],
          image_assessment = [(''quality'', JStr ''fair''), (''angle'', JStr ''unknown''),
                              (''body_parts_visible'', JDict [])],
          scores = \<lparr>structural =
                      [\<lparr>trait_id = ''stature'', trait_name = ''Stature'',
                        description = ''Height at withers'', score = JInt 9,
                        score_description = ''Very tall/large'', trait_notes = JStr ''''\<rparr>],
                    udder = []\<rparr>,
          composites = JDict [],
          overall_grade = ''Good'',
          assessment = JStr '''',
          recommendations = JList []\<rparr>"
    by (simp add: format_report_def format_scores_def py_items_def py_get_def get_or_def
        entry_score_def entry_notes_def trait_defs_def ATC_TRAITS_def Let_def
        get_score_description_def descriptions_def calculate_overall_grade_def grade_ladder_def)
  from a b show ?thesis by (rule conjI)
qed


text \<open>
  Claim C6, amended. The calculator runs in \<open>validate_result\<close>. When the validation of a
  raw payload returns the analysis result and a report is built from that result, the report
  embeds the composites that the calculator returns for the raw payload, and its grade is the
  ladder applied to their final composite.
\<close>

theorem format_report_embeds_composites:
  assumes "validate_result (JDict p) = Inr r"
    and "format_report now_id now_iso r = Inr rep"
  shows "calculate_composite_scores p = Inr (composites rep)
       \<and> (\<exists>sc uc fc. composites rep = JDict [(''structural_composite'', sc), (''udder_composite'', uc),
                                              (''final_composite'', fc)]
             \<and> calculate_overall_grade fc = Inr (overall_grade rep))"
proof -
  from assms(1) obtain c where
    c: "calculate_composite_scores (fill_defaults p defaults) = Inr c"
    and r: "r = dict_set (fill_defaults p defaults) ''composite_scores'' c"
    unfolding validate_result_def by (auto simp: Let_def elim!: bind_r_InrE)
  from c have cp: "calculate_composite_scores p = Inr c"
    by (simp add: calculate_composite_scores_fill_defaults)
  from calculate_composite_scores_shape [OF c] obtain sc uc fc where
    shape: "c = JDict [(''structural_composite'', sc), (''udder_composite'', uc),
                        (''final_composite'', fc)]"
    by blast
  have g: "get_or r ''composite_scores'' (JDict []) = c"
    by (simp add: r get_or_def map_of_dict_set)
  from format_report_Inr [OF assms(2)] obtain d where
    d: "composites rep = JDict d" "get_or r ''composite_scores'' (JDict []) = JDict d"
    "calculate_overall_grade (get_or d ''final_composite'' (JInt 5)) = Inr (overall_grade rep)"
    by blast
  from d g shape have "d = [(''structural_composite'', sc), (''udder_composite'', uc),
                           (''final_composite'', fc)]" by simp
  with d g cp shape show ?thesis by (simp add: get_or_def)
qed

theorem format_report_embeds_composites_witness:
  "\<exists>r rep.
     validate_result (JDict [(''structural_scores'', JDict [(''stature'', JDict [(''score'', JInt 9)])])])
       = Inr r
     \<and> format_report ''20240101120000'' ''2024-01-01T12:00:00'' r = Inr rep
     \<and> composites rep = JDict [(''structural_composite'', JFloat 9), (''udder_composite'', JNull),
                                (''final_composite'', JFloat 9)]
     \<and> overall_grade rep = ''Excellent''"
proof -
  let ?p = "[(''structural_scores'', JDict [(''stature'', JDict [(''score'', JInt 9)])])]"
  let ?c = "JDict [(''structural_composite'', JFloat 9), (''udder_composite'', JNull),
                   (''final_composite'', JFloat 9)]"
  have c: "calculate_composite_scores (fill_defaults ?p defaults) = Inr ?c"
    by (simp only: calculate_composite_scores_fill_defaults calculate_composite_scores_stature_9)
  have v: "validate_result (JDict ?p) =
             Inr (dict_set (fill_defaults ?p defaults) ''composite_scores'' ?c)"
    by (simp add: validate_result_def Let_def c)
  have "\<exists>rep. format_report ''20240101120000'' ''2024-01-01T12:00:00''
                (dict_set (fill_defaults ?p defaults) ''composite_scores'' ?c) = Inr rep"
    by (simp add: defaults_def format_report_def format_scores_def py_items_def py_get_def
        get_or_def entry_score_def entry_notes_def trait_defs_def ATC_TRAITS_def Let_def
        get_score_description_def descriptions_def calculate_overall_grade_def)
  then obtain rep where rep: "format_report ''20240101120000'' ''2024-01-01T12:00:00''
                (dict_set (fill_defaults ?p defaults) ''composite_scores'' ?c) = Inr rep"
    by blast
  from format_report_embeds_composites [OF v rep] have
    e: "calculate_composite_scores ?p = Inr (composites rep)"
    and g: "\<exists>sc uc fc. composites rep = JDict [(''structural_composite'', sc), (''udder_composite'', uc),
                                              (''final_composite'', fc)]
             \<and> calculate_overall_grade fc = Inr (overall_grade rep)"
    by blast+
  from e have comp: "composites rep = ?c"
    by (simp add: calculate_composite_scores_stature_9)
  with g have "overall_grade rep = ''Excellent''"
    by (simp add: calculate_overall_grade_def grade_ladder_def)
  with v rep comp show ?thesis by blast
qed

section \<open>The composites of integer scores\<close>

lemma ilog2_pow2: "ilog2 (2 powi k) = k"
proof -
  let ?e = "ilog2 (2 powi k)"
  have pos: "(0::rat) < 2 powi k" by simp
  have lo: "(2::rat) powi ?e \<le> 2 powi k" using pos by (rule ilog2_bounds)
  have hi: "(2::rat) powi k < 2 powi (?e + 1)" using pos by (rule ilog2_bounds)
  have "?e \<le> k"
  proof (rule ccontr)
    assume "\<not> ?e \<le> k"
    then have "k < ?e" by simp
    then have "(2::rat) powi k < 2 powi ?e" by (intro power_int_strict_increasing) simp_all
    with lo show False by simp
  qed
  moreover have "k \<le> ?e"
  proof (rule ccontr)
    assume "\<not> k \<le> ?e"
    then have "?e + 1 \<le> k" by simp
    then have "(2::rat) powi (?e + 1) \<le> 2 powi k" by (intro power_int_increasing) simp_all
    with hi show False by simp
  qed
  ultimately show ?thesis by simp
qed

lemma fl_pow2:
  assumes "- 1022 \<le> k"
  shows "fl (2 powi k) = 2 powi k"
proof -
  have u: "ulp (2 powi k) = 2 powi (k - 52)"
    using assms by (simp add: ulp_def ilog2_pow2 max_def)
  have "(2::rat) powi k / 2 powi (k - 52) = 2 powi (k - (k - 52))" by (rule pow2_diff)
  also have "\<dots> = of_int (2 ^ 52)" by simp
  finally have q: "(2::rat) powi k / ulp (2 powi k) = of_int (2 ^ 52)" by (simp only: u)
  have "fl (2 powi k) = of_int (round_half_even (2 powi k / ulp (2 powi k))) * ulp (2 powi k)"
    by (rule fl_pos) simp
  also have "\<dots> = of_int (round_half_even (of_int (2 ^ 52))) * ulp (2 powi k)"
    by (simp only: q)
  also have "\<dots> = of_int (2 ^ 52) * 2 powi (k - 52)"
    by (simp only: round_half_even_of_int u)
  also have "\<dots> = 2 powi 52 * 2 powi (k - 52)" by simp
  also have "\<dots> = 2 powi (52 + (k - 52))" by (rule pow2_add)
  also have "\<dots> = 2 powi k" by simp
  finally show ?thesis .
qed

lemma fl_pow_1000: "fl (2 ^ 1000) = 2 ^ 1000"
  using fl_pow2 [of 1000] by simp

lemma fl_pow_1001: "fl (2 ^ 1001) = 2 ^ 1001"
  using fl_pow2 [of 1001] by simp

lemma fl_5: "fl 5 = 5" by code_simp
lemma c06_value: "c06 = 5404319552844595 / 9007199254740992" unfolding c06_def by code_simp
lemma c04_value: "c04 = 3602879701896397 / 9007199254740992" unfolding c04_def by code_simp

lemma fl_abs_le:
  assumes "\<bar>q\<bar> \<le> b" and "fl b = b"
  shows "\<bar>fl q\<bar> \<le> b"
proof -
  have "fl q \<le> fl b" using assms(1) by (intro fl_mono) simp
  moreover have "fl (- b) \<le> fl q" using assms(1) by (intro fl_mono) simp
  ultimately show ?thesis using assms(2) by (simp add: fl_minus abs_le_iff)
qed

lemma sum_from_ints: "sum_from acc (map JInt ns) = Inr (acc + sum_list ns)"
  by (induction ns arbitrary: acc) (simp_all add: add.assoc)

lemma sum_list_bounds:
  assumes "\<forall>n \<in> set ns. lo \<le> n \<and> n \<le> hi"
  shows "lo * int (length ns) \<le> sum_list ns \<and> sum_list ns \<le> hi * int (length ns)"
  using assms by (induction ns) (auto simp: algebra_simps)

lemma exact_mean_bounds:
  assumes "ns \<noteq> []" and "\<forall>n \<in> set ns. lo \<le> n \<and> n \<le> hi"
  shows "of_int lo \<le> (of_int (sum_list ns) / of_int (int (length ns)) :: rat)"
    and "(of_int (sum_list ns) / of_int (int (length ns)) :: rat) \<le> of_int hi"
proof -
  have len: "(0::rat) < of_int (int (length ns))" using assms(1) by simp
  from sum_list_bounds [OF assms(2)] have
    "(of_int (lo * int (length ns)) :: rat) \<le> of_int (sum_list ns)"
    "(of_int (sum_list ns) :: rat) \<le> of_int (hi * int (length ns))"
    by (simp_all only: of_int_le_iff)
  then show "of_int lo \<le> (of_int (sum_list ns) / of_int (int (length ns)) :: rat)"
    and "(of_int (sum_list ns) / of_int (int (length ns)) :: rat) \<le> of_int hi"
    using len by (simp_all add: pos_le_divide_eq pos_divide_le_eq)
qed


lemma c06_range: "0 \<le> c06" "c06 \<le> 1"
  by (simp_all add: c06_value)

lemma c04_range: "0 \<le> c04" "c04 \<le> 1"
  by (simp_all add: c04_value)

lemma abs_mult_unit_le:
  fixes s c b :: rat
  assumes "\<bar>s\<bar> \<le> b" and "0 \<le> c" and "c \<le> 1"
  shows "\<bar>s * c\<bar> \<le> b"
proof -
  have "\<bar>s * c\<bar> = \<bar>s\<bar> * c" using assms(2) by (simp add: abs_mult)
  also have "\<dots> \<le> \<bar>s\<bar> * 1" using assms(3) by (intro mult_left_mono) simp_all
  finally show ?thesis using assms(1) by simp
qed

lemma mean_abs_le:
  assumes "ns \<noteq> []" and "\<forall>n \<in> set ns. \<bar>n\<bar> \<le> 2 ^ 1000"
  shows "\<bar>mean ns\<bar> \<le> 2 ^ 1000"
proof -
  from assms(2) have "\<forall>n \<in> set ns. - (2 ^ 1000) \<le> n \<and> n \<le> 2 ^ 1000"
    by (auto simp: abs_le_iff)
  from exact_mean_bounds [OF assms(1) this]
  have "\<bar>of_int (sum_list ns) / of_int (int (length ns)) :: rat\<bar> \<le> 2 ^ 1000"
    by (simp add: abs_le_iff)
  then show ?thesis unfolding mean_def using fl_pow_1000 by (rule fl_abs_le)
qed

lemma finite_1000: "\<bar>x\<bar> \<le> 2 ^ 1000 \<Longrightarrow> \<bar>x\<bar> < (2 ^ 1024 :: rat)"
proof -
  assume "\<bar>x\<bar> \<le> 2 ^ 1000"
  moreover have "(2 ^ 1000 :: rat) < 2 ^ 1024" by (rule power_strict_increasing) simp_all
  ultimately show ?thesis by simp
qed

lemma finite_1001: "\<bar>x\<bar> \<le> 2 ^ 1001 \<Longrightarrow> \<bar>x\<bar> < (2 ^ 1024 :: rat)"
proof -
  assume "\<bar>x\<bar> \<le> 2 ^ 1001"
  moreover have "(2 ^ 1001 :: rat) < 2 ^ 1024" by (rule power_strict_increasing) simp_all
  ultimately show ?thesis by simp
qed

lemma float_result_finite: "\<bar>fl q\<bar> < 2 ^ 1024 \<Longrightarrow> float_result e q = Inr (JFloat (fl q))"
  by (simp add: float_result_def)

lemma average_ints:
  assumes "ns \<noteq> []" and "\<forall>n \<in> set ns. \<bar>n\<bar> \<le> 2 ^ 1000"
  shows "average (map JInt ns) = Inr (JFloat (mean ns))"
proof -
  have "\<bar>mean ns\<bar> < 2 ^ 1024" using mean_abs_le [OF assms] by (rule finite_1000)
  then have "float_result OverflowError (of_int (sum_list ns) / of_int (int (length ns)))
               = Inr (JFloat (mean ns))"
    unfolding mean_def by (rule float_result_finite)
  then show ?thesis
    using assms(1) by (simp add: average_def py_sum_def sum_from_ints py_truediv_def)
qed

lemma py_mul_float:
  assumes "\<bar>s\<bar> \<le> 2 ^ 1000" and "0 \<le> c" and "c \<le> 1"
  shows "py_mul (JFloat s) c = Inr (JFloat (fl (s * c)))"
    and "\<bar>fl (s * c)\<bar> \<le> 2 ^ 1000"
proof -
  have "\<bar>s * c\<bar> \<le> 2 ^ 1000" using assms by (rule abs_mult_unit_le)
  then show b: "\<bar>fl (s * c)\<bar> \<le> 2 ^ 1000" using fl_pow_1000 by (rule fl_abs_le)
  then have "\<bar>fl (s * c)\<bar> < 2 ^ 1024" by (rule finite_1000)
  then show "py_mul (JFloat s) c = Inr (JFloat (fl (s * c)))"
    by (simp add: py_mul_def to_float_def float_result_finite)
qed

lemma py_mul_5: "py_mul (JInt 5) c = py_mul (JFloat 5) c"
  by (simp add: py_mul_def to_float_def float_result_def fl_5)

lemma py_add_float:
  assumes "\<bar>a\<bar> \<le> 2 ^ 1000" and "\<bar>b\<bar> \<le> 2 ^ 1000"
  shows "py_add (JFloat a) (JFloat b) = Inr (JFloat (fl (a + b)))"
proof -
  have "\<bar>a + b\<bar> \<le> 2 ^ 1001" using assms by simp
  then have "\<bar>fl (a + b)\<bar> \<le> 2 ^ 1001" using fl_pow_1001 by (rule fl_abs_le)
  then have "\<bar>fl (a + b)\<bar> < 2 ^ 1024" by (rule finite_1001)
  then show ?thesis by (simp add: py_add_def float_result_finite)
qed

lemma blend_float:
  assumes "\<bar>s\<bar> \<le> 2 ^ 1000" and "\<bar>u\<bar> \<le> 2 ^ 1000"
  shows "bind_r (py_mul (JFloat s) c06) (\<lambda>a. bind_r (py_mul (JFloat u) c04) (\<lambda>b. py_add a b))
           = Inr (JFloat (blend s u))"
  using py_mul_float [OF assms(1) c06_range] py_mul_float [OF assms(2) c04_range]
  by (simp add: py_add_float blend_def)

lemma calculate_composite_scores_ints:
  assumes "get_or r ''structural_scores'' (JDict []) = JDict ss"
    and "get_or r ''udder_scores'' (JDict []) = JDict us"
    and "collect_scores ss = map JInt ns"
    and "collect_scores us = map JInt ms"
    and "\<forall>n \<in> set ns. \<bar>n\<bar> \<le> 2 ^ 1000"
    and "\<forall>n \<in> set ms. \<bar>n\<bar> \<le> 2 ^ 1000"
  shows "calculate_composite_scores r = Inr (JDict
     [(''structural_composite'', if ns = [] then JInt 5 else JFloat (py_round2 (mean ns))),
      (''udder_composite'',
         if ms = [] \<or> mean ms = 0 then JNull else JFloat (py_round2 (mean ms))),
      (''final_composite'',
         if ms = [] then (if ns = [] then JInt 5 else JFloat (py_round2 (mean ns)))
         else JFloat (py_round2 (blend (if ns = [] then 5 else mean ns) (mean ms))))])"
proof -
  have sa: "ns \<noteq> [] \<Longrightarrow> average (map JInt ns) = Inr (JFloat (mean ns))"
    by (rule average_ints [OF _ assms(5)])
  have ua: "ms \<noteq> [] \<Longrightarrow> average (map JInt ms) = Inr (JFloat (mean ms))"
    by (rule average_ints [OF _ assms(6)])
  have sb: "ns \<noteq> [] \<Longrightarrow> \<bar>mean ns\<bar> \<le> 2 ^ 1000"
    by (rule mean_abs_le [OF _ assms(5)])
  have ub: "ms \<noteq> [] \<Longrightarrow> \<bar>mean ms\<bar> \<le> 2 ^ 1000"
    by (rule mean_abs_le [OF _ assms(6)])
  have five: "\<bar>5 :: rat\<bar> \<le> 2 ^ 1000"
  proof -
    have "(5::rat) \<le> 2 ^ 3" by simp
    also have "\<dots> \<le> 2 ^ 1000" by (rule power_increasing) simp_all
    finally show ?thesis by simp
  qed
  show ?thesis
  proof (cases "ms = []")
    case True
    then show ?thesis
      by (cases "ns = []")
        (simp_all add: calculate_composite_scores_def assms(1-4) py_items_def sa py_round_def)
  next
    case False
    note u = ub [OF False]
    show ?thesis
    proof (cases "ns = []")
      case True
      with False show ?thesis
        by (simp add: calculate_composite_scores_def assms(1-4) py_items_def ua py_round_def
            py_mul_5 blend_float [OF five u])
    next
      case False
      with \<open>ms \<noteq> []\<close> show ?thesis
        by (simp add: calculate_composite_scores_def assms(1-4) py_items_def sa ua py_round_def
            blend_float [OF sb [OF False] u])
    qed
  qed
qed

section \<open>The composites of a typed payload\<close>

lemma collect_scores_typed:
  assumes "typed_scores lo hi entries"
  shows "collect_scores entries = map JInt (int_scores entries)
       \<and> (\<forall>n \<in> set (int_scores entries). lo \<le> n \<and> n \<le> hi)"
  using assms
proof (induction entries)
  case Nil
  then show ?case by simp
next
  case (Cons e entries)
  obtain t data where e: "e = (t, data)" by (cases e)
  from Cons.prems have ok: "score_ok lo hi data" and rest: "typed_scores lo hi entries"
    by (simp_all add: e)
  note ih = Cons.IH [OF rest]
  show ?case
  proof (cases data)
    case (JDict d)
    show ?thesis
    proof (cases "map_of d ''score''")
      case None
      with JDict ih show ?thesis by (simp add: e get_or_def)
    next
      case (Some v)
      with JDict ok ih show ?thesis
        by (cases v) (simp_all add: e get_or_def score_ok_def)
    qed
  qed (use ih in \<open>simp_all add: e\<close>)
qed

lemma typed_scores_wide:
  assumes "typed_scores (- (2 ^ 1000)) (2 ^ 1000) entries"
  shows "\<forall>n \<in> set (int_scores entries). \<bar>n\<bar> \<le> 2 ^ 1000"
  using collect_scores_typed [OF assms] by (auto simp: abs_le_iff)

lemma typed_scores_1_9:
  assumes "typed_scores 1 9 entries"
  shows "\<forall>n \<in> set (int_scores entries). \<bar>n\<bar> \<le> 2 ^ 1000"
proof
  fix n assume "n \<in> set (int_scores entries)"
  with collect_scores_typed [OF assms] have "1 \<le> n" "n \<le> 9" by auto
  moreover have "(9::int) \<le> 2 ^ 1000"
  proof -
    have "(9::int) \<le> 2 ^ 4" by simp
    also have "\<dots> \<le> 2 ^ 1000" by (rule power_increasing) simp_all
    finally show ?thesis .
  qed
  ultimately show "\<bar>n\<bar> \<le> 2 ^ 1000" by linarith
qed

lemma calculate_composite_scores_typed:
  assumes "get_or r ''structural_scores'' (JDict []) = JDict ss"
    and "get_or r ''udder_scores'' (JDict []) = JDict us"
    and "typed_scores lo hi ss" and "typed_scores lo hi us"
    and "\<forall>n \<in> set (int_scores ss). \<bar>n\<bar> \<le> 2 ^ 1000"
    and "\<forall>n \<in> set (int_scores us). \<bar>n\<bar> \<le> 2 ^ 1000"
  shows "calculate_composite_scores r = Inr (JDict
     [(''structural_composite'',
         if int_scores ss = [] then JInt 5 else JFloat (py_round2 (mean (int_scores ss)))),
      (''udder_composite'',
         if int_scores us = [] \<or> mean (int_scores us) = 0 then JNull
         else JFloat (py_round2 (mean (int_scores us)))),
      (''final_composite'',
         if int_scores us = []
         then (if int_scores ss = [] then JInt 5 else JFloat (py_round2 (mean (int_scores ss))))
         else JFloat (py_round2 (blend (if int_scores ss = [] then 5 else mean (int_scores ss))
                                       (mean (int_scores us)))))])"
  by (rule calculate_composite_scores_ints
      [OF assms(1,2) conjunct1 [OF collect_scores_typed [OF assms(3)]]
          conjunct1 [OF collect_scores_typed [OF assms(4)]] assms(5,6)])

section \<open>The structural composite\<close>

text \<open>
  Claim C3. Take a payload whose two score maps are dicts (a missing map is the empty dict)
  and in which the score of every entry that is a dict is an integer, null or missing; the
  entries that are not dicts are arbitrary. The calculator returns, and the structural
  composite is the mean of the integer scores present, rounded to two decimals; an entry
  that is not a dict or has no score is left out and raises nothing. With no score present
  the composite is the integer 5. The integers are at most \<open>2 ^ 1000\<close> in magnitude: the
  true division of larger ones can raise \<^verbatim>\<open>OverflowError\<close>.
\<close>

theorem structural_composite_mean:
  assumes "get_or r ''structural_scores'' (JDict []) = JDict ss"
    and "get_or r ''udder_scores'' (JDict []) = JDict us"
    and "typed_scores (- (2 ^ 1000)) (2 ^ 1000) ss"
    and "typed_scores (- (2 ^ 1000)) (2 ^ 1000) us"
  shows "\<exists>c. calculate_composite_scores r = Inr (JDict c)
           \<and> map_of c ''structural_composite'' =
               Some (if int_scores ss = [] then JInt 5
                     else JFloat (py_round2 (mean (int_scores ss))))"
  using calculate_composite_scores_typed
    [OF assms typed_scores_wide [OF assms(3)] typed_scores_wide [OF assms(4)]]
  by simp

lemma mean_7_5: "py_round2 (mean [7, 5]) = 6" by code_simp

theorem structural_composite_mean_witness:
  "\<exists>c. calculate_composite_scores
          [(''structural_scores'',
             JDict [(''stature'', JDict [(''score'', JInt 7), (''notes'', JStr ''tall'')]),
                    (''chest_width'', JDict [(''score'', JInt 5)]),
                    (''body_depth'', JStr ''n/a''),
                    (''rump_angle'', JDict [(''notes'', JStr ''hidden'')]),
                    (''rump_width'', JDict [(''score'', JNull)])])] = Inr (JDict c)
       \<and> map_of c ''structural_composite'' = Some (JFloat 6)"
proof -
  let ?ss = "[(''stature'', JDict [(''score'', JInt 7), (''notes'', JStr ''tall'')]),
              (''chest_width'', JDict [(''score'', JInt 5)]),
              (''body_depth'', JStr ''n/a''),
              (''rump_angle'', JDict [(''notes'', JStr ''hidden'')]),
              (''rump_width'', JDict [(''score'', JNull)])]"
  let ?r = "[(''structural_scores'', JDict ?ss)]"
  have s: "get_or ?r ''structural_scores'' (JDict []) = JDict ?ss" by (simp add: get_or_def)
  have u: "get_or ?r ''udder_scores'' (JDict []) = JDict []" by (simp add: get_or_def)
  have ts: "typed_scores (- (2 ^ 1000)) (2 ^ 1000) ?ss"
    by (simp add: score_ok_def)
  have tu: "typed_scores (- (2 ^ 1000)) (2 ^ 1000) []"
    by simp
  have i: "int_scores ?ss = [7, 5]" by simp
  from structural_composite_mean [OF s u ts tu] show ?thesis
    by (simp add: i mean_7_5)
qed


section \<open>The final composite\<close>

lemma c1_structural: "py_round2 (mean [2, 1, 1, 1, 1, 1, 1]) = fl (114 / 100)" by code_simp
lemma c1_udder: "mean [1] = 1" "py_round2 1 = 1" by code_simp+
lemma c1_final: "py_round2 (blend (mean [2, 1, 1, 1, 1, 1, 1]) (mean [1])) = fl (109 / 100)"
  by code_simp
lemma c1_final_1: "py_round2 (blend (mean [2, 1, 1, 1, 1, 1, 1]) 1) = fl (109 / 100)"
  by code_simp
lemma c1_claimed: "py_round2 (blend (fl (114 / 100)) 1) = fl (108 / 100)" by code_simp
lemma c1_differ: "fl (109 / 100) \<noteq> fl (108 / 100)" by code_simp
lemma c1_exact:
  "(of_int (round_half_even ((6 / 10 * (114 / 100) + 4 / 10 * 1) * 100)) / 100 :: rat) = 108 / 100"
  by code_simp

text \<open>
  Claim C1, as stated, fails. For seven structural scores 2, 1, 1, 1, 1, 1, 1 and the udder
  score 1, the composites are 1.14 and 1.0 and the final composite is 1.09: the blend of the
  means 8/7 and 1 is about 1.0857. The blend of the two rounded composites is 1.084, which
  rounds to 1.08, in floats and in exact arithmetic alike.
\<close>

theorem final_composite_of_rounded_counterexample:
  "calculate_composite_scores
     [(''structural_scores'',
        JDict [(''stature'', JDict [(''score'', JInt 2)]),
               (''chest_width'', JDict [(''score'', JInt 1)]),
               (''body_depth'', JDict [(''score'', JInt 1)]),
               (''rump_angle'', JDict [(''score'', JInt 1)]),
               (''rump_width'', JDict [(''score'', JInt 1)]),
               (''rear_legs'', JDict [(''score'', JInt 1)]),
               (''foot_angle'', JDict [(''score'', JInt 1)])]),
      (''udder_scores'', JDict [(''fore_udder'', JDict [(''score'', JInt 1)])])] =
     Inr (JDict [(''structural_composite'', JFloat (fl (114 / 100))),
                 (''udder_composite'', JFloat 1),
                 (''final_composite'', JFloat (fl (109 / 100)))])
   \<and> py_round2 (blend (fl (114 / 100)) 1) = fl (108 / 100)
   \<and> (of_int (round_half_even ((6 / 10 * (114 / 100) + 4 / 10 * 1) * 100)) / 100 :: rat) = 108 / 100
   \<and> fl (109 / 100) \<noteq> fl (108 / 100)"
proof -
  let ?ss = "[(''stature'', JDict [(''score'', JInt 2)]),
               (''chest_width'', JDict [(''score'', JInt 1)]),
               (''body_depth'', JDict [(''score'', JInt 1)]),
               (''rump_angle'', JDict [(''score'', JInt 1)]),
               (''rump_width'', JDict [(''score'', JInt 1)]),
               (''rear_legs'', JDict [(''score'', JInt 1)]),
               (''foot_angle'', JDict [(''score'', JInt 1)])]"
  let ?us = "[(''fore_udder'', JDict [(''score'', JInt 1)])]"
  let ?r = "[(''structural_scores'', JDict ?ss), (''udder_scores'', JDict ?us)]"
  have s: "get_or ?r ''structural_scores'' (JDict []) = JDict ?ss" by (simp add: get_or_def)
  have u: "get_or ?r ''udder_scores'' (JDict []) = JDict ?us" by (simp add: get_or_def)
  have ts: "typed_scores 1 9 ?ss" by (simp add: score_ok_def)
  have tu: "typed_scores 1 9 ?us" by (simp add: score_ok_def)
  have "calculate_composite_scores ?r =
     Inr (JDict [(''structural_composite'', JFloat (fl (114 / 100))),
                 (''udder_composite'', JFloat 1),
                 (''final_composite'', JFloat (fl (109 / 100)))])"
    using calculate_composite_scores_typed
      [OF s u ts tu typed_scores_1_9 [OF ts] typed_scores_1_9 [OF tu]]
    by (simp add: c1_structural c1_udder c1_final_1)
  with c1_claimed c1_exact c1_differ show ?thesis by blast
qed

text \<open>
  Claim C1, amended. For a typed payload with at least one structural and one udder score,
  the final composite is the blend \<^verbatim>\<open>s * 0.6 + u * 0.4\<close> of the two means before their
  rounding, rounded to two decimals.
\<close>

theorem final_composite_blend:
  assumes "get_or r ''structural_scores'' (JDict []) = JDict ss"
    and "get_or r ''udder_scores'' (JDict []) = JDict us"
    and "typed_scores (- (2 ^ 1000)) (2 ^ 1000) ss"
    and "typed_scores (- (2 ^ 1000)) (2 ^ 1000) us"
    and "int_scores ss \<noteq> []" and "int_scores us \<noteq> []"
  shows "\<exists>c. calculate_composite_scores r = Inr (JDict c)
           \<and> map_of c ''final_composite'' =
               Some (JFloat (py_round2 (blend (mean (int_scores ss)) (mean (int_scores us)))))"
  using calculate_composite_scores_typed
    [OF assms(1-4) typed_scores_wide [OF assms(3)] typed_scores_wide [OF assms(4)]] assms(5,6)
  by simp

theorem final_composite_blend_witness:
  "\<exists>c. calculate_composite_scores
          [(''structural_scores'',
             JDict [(''stature'', JDict [(''score'', JInt 2)]),
                    (''chest_width'', JDict [(''score'', JInt 1)]),
                    (''body_depth'', JDict [(''score'', JInt 1)]),
                    (''rump_angle'', JDict [(''score'', JInt 1)]),
                    (''rump_width'', JDict [(''score'', JInt 1)]),
                    (''rear_legs'', JDict [(''score'', JInt 1)]),
                    (''foot_angle'', JDict [(''score'', JInt 1)])]),
           (''udder_scores'', JDict [(''fore_udder'', JDict [(''score'', JInt 1)])])] = Inr (JDict c)
       \<and> map_of c ''final_composite'' = Some (JFloat (fl (109 / 100)))"
proof -
  let ?ss = "[(''stature'', JDict [(''score'', JInt 2)]),
               (''chest_width'', JDict [(''score'', JInt 1)]),
               (''body_depth'', JDict [(''score'', JInt 1)]),
               (''rump_angle'', JDict [(''score'', JInt 1)]),
               (''rump_width'', JDict [(''score'', JInt 1)]),
               (''rear_legs'', JDict [(''score'', JInt 1)]),
               (''foot_angle'', JDict [(''score'', JInt 1)])]"
  let ?us = "[(''fore_udder'', JDict [(''score'', JInt 1)])]"
  let ?r = "[(''structural_scores'', JDict ?ss), (''udder_scores'', JDict ?us)]"
  have s: "get_or ?r ''structural_scores'' (JDict []) = JDict ?ss" by (simp add: get_or_def)
  have u: "get_or ?r ''udder_scores'' (JDict []) = JDict ?us" by (simp add: get_or_def)
  have ts: "typed_scores (- (2 ^ 1000)) (2 ^ 1000) ?ss" by (simp add: score_ok_def)
  have tu: "typed_scores (- (2 ^ 1000)) (2 ^ 1000) ?us" by (simp add: score_ok_def)
  have ns: "int_scores ?ss \<noteq> []" by simp
  have nu: "int_scores ?us \<noteq> []" by simp
  from final_composite_blend [OF s u ts tu ns nu] show ?thesis
    by (simp add: c1_final)
qed

section \<open>The udder composite\<close>

lemma c4_values:
  "py_round2 (mean [5]) = 5" "mean [0] = 0" "py_round2 (blend (mean [5]) 0) = 3"
  by code_simp+

text \<open>
  Claim C4. For the structural score 5 and the udder score 0, an udder score is present and
  the final composite is the blend 3.0 of the means 5.0 and 0.0, yet the udder composite is
  absent: it is tested for truth, not against \<^verbatim>\<open>None\<close> as two lines above, and the mean
  0.0 is false.
\<close>

theorem udder_composite_zero_mean:
  "calculate_composite_scores
     [(''structural_scores'', JDict [(''stature'', JDict [(''score'', JInt 5)])]),
      (''udder_scores'', JDict [(''fore_udder'', JDict [(''score'', JInt 0)])])] =
     Inr (JDict [(''structural_composite'', JFloat 5),
                 (''udder_composite'', JNull),
                 (''final_composite'', JFloat 3)])"
proof -
  let ?ss = "[(''stature'', JDict [(''score'', JInt 5)])]"
  let ?us = "[(''fore_udder'', JDict [(''score'', JInt 0)])]"
  let ?r = "[(''structural_scores'', JDict ?ss), (''udder_scores'', JDict ?us)]"
  have s: "get_or ?r ''structural_scores'' (JDict []) = JDict ?ss" by (simp add: get_or_def)
  have u: "get_or ?r ''udder_scores'' (JDict []) = JDict ?us" by (simp add: get_or_def)
  have ts: "typed_scores 0 9 ?ss" by (simp add: score_ok_def)
  have tu: "typed_scores 0 9 ?us" by (simp add: score_ok_def)
  have bs: "\<forall>n \<in> set (int_scores ?ss). \<bar>n\<bar> \<le> 2 ^ 1000" by simp
  have bu: "\<forall>n \<in> set (int_scores ?us). \<bar>n\<bar> \<le> 2 ^ 1000" by simp
  show ?thesis
    using calculate_composite_scores_typed [OF s u ts tu bs bu]
    by (simp add: c4_values)
qed

section \<open>The range of the composites\<close>

lemma mean_range:
  assumes "ns \<noteq> []" and "\<forall>n \<in> set ns. 1 \<le> n \<and> n \<le> 9"
  shows "1 \<le> mean ns \<and> mean ns \<le> 9"
proof -
  from exact_mean_bounds [OF assms] have
    lo: "1 \<le> (of_int (sum_list ns) / of_int (int (length ns)) :: rat)"
    and hi: "(of_int (sum_list ns) / of_int (int (length ns)) :: rat) \<le> 9"
    by simp_all
  from fl_mono [OF lo] fl_mono [OF hi] show ?thesis
    by (simp add: mean_def fl_1 fl_9)
qed

lemma py_round2_range:
  assumes "1 \<le> x" and "x \<le> 9"
  shows "1 \<le> py_round2 x \<and> py_round2 x \<le> 9"
  using py_round2_mono [OF assms(1)] py_round2_mono [OF assms(2)]
  by (simp add: c1_udder py_round2_9)

lemma blend_mono:
  assumes "s \<le> s'" and "u \<le> u'"
  shows "blend s u \<le> blend s' u'"
proof -
  have "s * c06 \<le> s' * c06" using assms(1) c06_range(1) by (rule mult_right_mono)
  then have a: "fl (s * c06) \<le> fl (s' * c06)" by (rule fl_mono)
  have "u * c04 \<le> u' * c04" using assms(2) c04_range(1) by (rule mult_right_mono)
  then have b: "fl (u * c04) \<le> fl (u' * c04)" by (rule fl_mono)
  from a b have "fl (s * c06) + fl (u * c04) \<le> fl (s' * c06) + fl (u' * c04)"
    by (rule add_mono)
  then show ?thesis unfolding blend_def by (rule fl_mono)
qed

lemma blend_1_1: "blend 1 1 = 1" by code_simp
lemma blend_9_9: "blend 9 9 = 9" by code_simp

lemma blend_range:
  assumes "1 \<le> s" and "s \<le> 9" and "1 \<le> u" and "u \<le> 9"
  shows "1 \<le> blend s u \<and> blend s u \<le> 9"
  using blend_mono [OF assms(1,3)] blend_mono [OF assms(2,4)]
  by (simp add: blend_1_1 blend_9_9)

lemma within_1_9_float: "1 \<le> x \<and> x \<le> 9 \<Longrightarrow> within_1_9 (JFloat x)"
  by (simp add: within_1_9_def)

lemma within_1_9_5: "within_1_9 (JInt 5)"
  by (simp add: within_1_9_def)

text \<open>
  Claim C10. For a payload in which every present score is an integer from 1 to 9, the
  calculator returns, the structural composite and the final composite lie between 1 and 9,
  and the udder composite is absent or lies between 1 and 9.
\<close>

theorem composites_within_range:
  assumes "get_or r ''structural_scores'' (JDict []) = JDict ss"
    and "get_or r ''udder_scores'' (JDict []) = JDict us"
    and "typed_scores 1 9 ss" and "typed_scores 1 9 us"
  shows "\<exists>sc uc fc.
           calculate_composite_scores r =
             Inr (JDict [(''structural_composite'', sc), (''udder_composite'', uc),
                         (''final_composite'', fc)])
           \<and> within_1_9 sc \<and> within_1_9 fc \<and> (uc = JNull \<or> within_1_9 uc)"
proof -
  let ?ns = "int_scores ss" and ?ms = "int_scores us"
  note calc = calculate_composite_scores_typed
    [OF assms typed_scores_1_9 [OF assms(3)] typed_scores_1_9 [OF assms(4)]]
  have rs: "\<forall>n \<in> set ?ns. 1 \<le> n \<and> n \<le> 9"
    using collect_scores_typed [OF assms(3)] by blast
  have ru: "\<forall>n \<in> set ?ms. 1 \<le> n \<and> n \<le> 9"
    using collect_scores_typed [OF assms(4)] by blast
  have ms: "?ns \<noteq> [] \<Longrightarrow> 1 \<le> mean ?ns \<and> mean ?ns \<le> 9"
    by (rule mean_range [OF _ rs])
  have mu: "?ms \<noteq> [] \<Longrightarrow> 1 \<le> mean ?ms \<and> mean ?ms \<le> 9"
    by (rule mean_range [OF _ ru])
  let ?sv = "if ?ns = [] then 5 else mean ?ns"
  have sv: "1 \<le> ?sv \<and> ?sv \<le> 9" using ms by simp
  have sc: "within_1_9 (if ?ns = [] then JInt 5 else JFloat (py_round2 (mean ?ns)))"
    using ms py_round2_range [of "mean ?ns"] by (simp add: within_1_9_float within_1_9_5)
  have uc: "(if ?ms = [] \<or> mean ?ms = 0 then JNull else JFloat (py_round2 (mean ?ms))) = JNull
            \<or> within_1_9 (if ?ms = [] \<or> mean ?ms = 0 then JNull
                            else JFloat (py_round2 (mean ?ms)))"
    using mu py_round2_range [of "mean ?ms"] by (simp add: within_1_9_float)
  have fc: "within_1_9 (if ?ms = [] then (if ?ns = [] then JInt 5 else JFloat (py_round2 (mean ?ns)))
                        else JFloat (py_round2 (blend ?sv (mean ?ms))))"
  proof (cases "?ms = []")
    case True
    with sc show ?thesis by simp
  next
    case False
    from mu [OF False] sv have "1 \<le> blend ?sv (mean ?ms) \<and> blend ?sv (mean ?ms) \<le> 9"
      by (intro blend_range) simp_all
    then have "1 \<le> py_round2 (blend ?sv (mean ?ms)) \<and> py_round2 (blend ?sv (mean ?ms)) \<le> 9"
      by (intro py_round2_range) simp_all
    with False show ?thesis by (simp add: within_1_9_float)
  qed
  from calc sc uc fc show ?thesis by blast
qed

theorem composites_within_range_witness:
  "\<exists>sc uc fc.
     calculate_composite_scores
       [(''structural_scores'',
          JDict [(''stature'', JDict [(''score'', JInt 7)]),
                 (''chest_width'', JDict [(''score'', JInt 5)])]),
        (''udder_scores'',
          JDict [(''fore_udder'', JDict [(''score'', JInt 4)]),
                 (''teat_length'', JDict [(''score'', JNull)])])] =
       Inr (JDict [(''structural_composite'', sc), (''udder_composite'', uc),
                   (''final_composite'', fc)])
     \<and> within_1_9 sc \<and> within_1_9 fc \<and> (uc = JNull \<or> within_1_9 uc)"
proof -
  let ?ss = "[(''stature'', JDict [(''score'', JInt 7)]),
              (''chest_width'', JDict [(''score'', JInt 5)])]"
  let ?us = "[(''fore_udder'', JDict [(''score'', JInt 4)]),
              (''teat_length'', JDict [(''score'', JNull)])]"
  let ?r = "[(''structural_scores'', JDict ?ss), (''udder_scores'', JDict ?us)]"
  have s: "get_or ?r ''structural_scores'' (JDict []) = JDict ?ss" by (simp add: get_or_def)
  have u: "get_or ?r ''udder_scores'' (JDict []) = JDict ?us" by (simp add: get_or_def)
  have ts: "typed_scores 1 9 ?ss" by (simp add: score_ok_def)
  have tu: "typed_scores 1 9 ?us" by (simp add: score_ok_def)
  from composites_within_range [OF s u ts tu] show ?thesis .
qed


text \<open>
  With every present score from 1 to 9 the udder mean is at least 1, so its truth test
  agrees with the test against \<^verbatim>\<open>None\<close>: the udder composite is absent exactly when no
  udder score is present, and then the final composite is the structural composite.
\<close>

lemma udder_composite_of_scores_1_9:
  assumes "get_or r ''structural_scores'' (JDict []) = JDict ss"
    and "get_or r ''udder_scores'' (JDict []) = JDict us"
    and "typed_scores 1 9 ss" and "typed_scores 1 9 us"
  shows "\<exists>sc uc fc.
           calculate_composite_scores r =
             Inr (JDict [(''structural_composite'', sc), (''udder_composite'', uc),
                         (''final_composite'', fc)])
           \<and> uc = (if int_scores us = [] then JNull else JFloat (py_round2 (mean (int_scores us))))
           \<and> (int_scores us = [] \<longrightarrow> fc = sc)"
proof -
  note calc = calculate_composite_scores_typed
    [OF assms typed_scores_1_9 [OF assms(3)] typed_scores_1_9 [OF assms(4)]]
  have ru: "\<forall>n \<in> set (int_scores us). 1 \<le> n \<and> n \<le> 9"
    using collect_scores_typed [OF assms(4)] by blast
  have "int_scores us \<noteq> [] \<Longrightarrow> mean (int_scores us) \<noteq> 0"
    using mean_range [OF _ ru] by auto
  with calc show ?thesis by auto
qed

end
